theory Spec2Isabelle
  imports Main
begin

section \<open>Data model of the billing integration\<close>

text \<open>
  The model follows \<^verbatim>\<open>src/integration/billing/BillingIntegration.ts\<close>. An object
  reference that may be \<^verbatim>\<open>null\<close> or \<^verbatim>\<open>undefined\<close> is an \<open>option\<close>; a thrown
  exception is the left summand of a result. Field names carry a short prefix naming
  their record, since a record field is a constant of the theory.

  Modelled from the spec: the types \<^verbatim>\<open>User\<close>, \<^verbatim>\<open>BillingUser\<close>, \<^verbatim>\<open>BillingInvoice\<close>,
  \<^verbatim>\<open>BillingInvoiceDocument\<close>, \<^verbatim>\<open>Transaction\<close> and \<^verbatim>\<open>BillingSetting\<close> are imported by
  the source and not part of it. The records below hold the fields that the source reads
  or writes, with the meaning section 3 of the specification gives them. Time stamps and
  the identifiers that the storage gives are natural numbers; the calls of the logger
  are left out.
\<close>

datatype error =
    BackendError string    \<comment> \<open>\<^verbatim>\<open>throw new BackendError({message: ...})\<close>\<close>
  | TypeError string       \<comment> \<open>the JavaScript runtime reading a property of \<^verbatim>\<open>undefined\<close>\<close>
  | ProviderError string   \<comment> \<open>an error object thrown by an implementation of an abstract method\<close>
  | Nullish                \<comment> \<open>the value \<^verbatim>\<open>undefined\<close> or \<^verbatim>\<open>null\<close>, thrown or rejected with\<close>

text \<open>JavaScript truthiness of an optional string: absent and the empty string are falsy.\<close>

fun truthy :: "string option \<Rightarrow> bool" where
  "truthy None = False"
| "truthy (Some s) = (s \<noteq> [])"

record billing_data =
  bd_customerID :: "string option"
  bd_hasSynchroError :: bool
  bd_invoicesLastSynchronizedOn :: "nat option"

datatype user_status = ACTIVE | INACTIVE | PENDING | BLOCKED | LOCKED

record user =
  u_id :: string
  u_email :: string
  u_status :: user_status
  u_billingData :: "billing_data option"

record billing_user =
  bu_email :: string
  bu_billingData :: "billing_data option"

record charging_station =
  cs_id :: string

record transaction_billing_data =
  tb_invoiceID :: "string option"

record transaction =
  t_userID :: "string option"
  t_user :: "user option"
  t_chargeBox :: "charging_station option"
  t_billingData :: "transaction_billing_data option"

section \<open>Transaction guards\<close>

text \<open>
  \<^verbatim>\<open>checkStopTransaction\<close>, check by check in the order of the source. The third check
  is \<^verbatim>\<open>transaction?.billingData.invoiceID\<close>: the optional chaining protects the
  access to \<^verbatim>\<open>transaction\<close> only, so with \<^verbatim>\<open>billingData\<close> absent the read of
  \<^verbatim>\<open>invoiceID\<close> throws the runtime's TypeError.
\<close>

definition checkStopTransaction :: "transaction \<Rightarrow> error + unit" where
  "checkStopTransaction t =
     (if \<not> truthy (t_userID t) \<or> t_user t = None then
        Inl (BackendError ''User is not provided'')
      else if t_chargeBox t = None then
        Inl (BackendError ''Charging Station is not provided'')
      else
        (case t_billingData t of
           None \<Rightarrow> Inl (TypeError ''Cannot read properties of undefined (reading invoiceID)'')
         | Some tb \<Rightarrow>
             (if truthy (tb_invoiceID tb) then
                Inl (BackendError ''Transaction has already billing data'')
              else
                (case t_user t of
                   None \<Rightarrow>
                     Inl (TypeError ''Cannot read properties of undefined (reading billingData)'')
                 | Some u \<Rightarrow>
                     (if u_billingData u = None then
                        Inl (BackendError ''User has no Billing Data'')
                      else Inr ())))))"

text \<open>\<^verbatim>\<open>checkStartTransaction\<close>, the sibling guard.\<close>

definition checkStartTransaction :: "transaction \<Rightarrow> error + unit" where
  "checkStartTransaction t =
     (if \<not> truthy (t_userID t) \<or> t_user t = None then
        Inl (BackendError ''User is not provided'')
      else
        (case t_user t of
           None \<Rightarrow> Inl (TypeError ''Cannot read properties of undefined (reading billingData)'')
         | Some billingUser \<Rightarrow>
             (case u_billingData billingUser of
                None \<Rightarrow>
                  Inl (BackendError
                         ''Transaction user has no billing method or no customer in Stripe'')
              | Some bd \<Rightarrow>
                  (if \<not> truthy (bd_customerID bd) then
                     Inl (BackendError
                            ''Transaction user has no billing method or no customer in Stripe'')
                   else Inr ()))))"

text \<open>A raised error is a precondition error when it is one of the guard's own.\<close>

fun isBackendError :: "error + 'a \<Rightarrow> bool" where
  "isBackendError (Inl (BackendError m)) = True"
| "isBackendError r = False"

text \<open>Sample inputs of the guards.\<close>

definition sampleBillingData :: billing_data where
  "sampleBillingData =
     \<lparr>bd_customerID = Some ''cus_u1'', bd_hasSynchroError = False,
      bd_invoicesLastSynchronizedOn = None\<rparr>"

definition sampleUser :: user where
  "sampleUser =
     \<lparr>u_id = ''u1'', u_email = ''u1@example.org'', u_status = ACTIVE,
      u_billingData = Some sampleBillingData\<rparr>"

definition txNoBillingData :: transaction where
  "txNoBillingData =
     \<lparr>t_userID = Some ''u1'', t_user = Some sampleUser,
      t_chargeBox = Some \<lparr>cs_id = ''cs1''\<rparr>, t_billingData = None\<rparr>"

definition txUserWithoutBilling :: transaction where
  "txUserWithoutBilling =
     \<lparr>t_userID = Some ''u1'', t_user = Some (sampleUser\<lparr>u_billingData := None\<rparr>),
      t_chargeBox = Some \<lparr>cs_id = ''cs1''\<rparr>, t_billingData = None\<rparr>"

section \<open>Storage\<close>

datatype invoice_status = PAID | OPEN | DRAFT

record invoice =
  inv_id :: "nat option"           \<comment> \<open>the local identifier, given by the storage on the first save\<close>
  inv_invoiceID :: string          \<comment> \<open>the provider's identifier of the invoice\<close>
  inv_customerID :: string
  inv_userID :: "string option"
  inv_user :: "user option"
  inv_status :: invoice_status
  inv_nbrOfItems :: nat
  inv_downloadable :: bool

record invoice_document =
  doc_invoiceID :: "nat option"
  doc_content :: string

record stripe_settings =
  ss_usersLastSynchronizedOn :: "nat option"
  ss_invoicesLastSynchronizedOn :: "nat option"

record billing_settings =
  bs_stripe :: stripe_settings

record storage =
  st_users :: "user list"
  st_invoices :: "invoice list"
  st_documents :: "invoice_document list"
  st_settings :: billing_settings
  st_nextInvoiceID :: nat

record 'a data_result =
  dr_count :: int
  dr_result :: "'a list"

definition dataResult :: "'a list \<Rightarrow> 'a data_result" where
  "dataResult xs = \<lparr>dr_count = int (length xs), dr_result = xs\<rparr>"

text \<open>
  The storage classes \<^verbatim>\<open>UserStorage\<close>, \<^verbatim>\<open>BillingStorage\<close> and \<^verbatim>\<open>SettingStorage\<close> are
  imported by the source and not part of it. Each of their methods that the source calls is
  modelled from the storage contract of the specification (section 6): user query by status
  or flag, user lookup by provider identity, upsert of billing data, invoice upsert and
  lookup by provider identity, invoice deletion, document persistence, settings read and
  write. One tenant's data is one \<open>storage\<close> value, so the tenant identifier that every
  call passes is left out, and the storage is taken to answer every call.
\<close>

fun hasSynchroErrorFlag :: "user \<Rightarrow> bool" where
  "hasSynchroErrorFlag u =
     (case u_billingData u of None \<Rightarrow> False | Some bd \<Rightarrow> bd_hasSynchroError bd)"

fun notSynchronizedBillingData :: "user \<Rightarrow> bool" where
  "notSynchronizedBillingData u =
     (case u_billingData u of None \<Rightarrow> True | Some bd \<Rightarrow> bd_customerID bd = None)"

text \<open>
  Modelled from the spec: \<^verbatim>\<open>UserStorage.getUsersInError\<close> with the error type
  \<^verbatim>\<open>FAILED_BILLING_SYNCHRO\<close>, "all local users currently flagged as being in a
  billing-sync error state".
\<close>

definition getUsersInError :: "storage \<Rightarrow> user data_result" where
  "getUsersInError st = dataResult (filter hasSynchroErrorFlag (st_users st))"

text \<open>
  Modelled from the spec: \<^verbatim>\<open>UserStorage.getUsers\<close> with the filter of the source, "all
  active local users whose billing data has never been synchronized"; the customer
  identifier is "nullable until first sync". The users come in the order of the storage.
\<close>

definition getUsers :: "storage \<Rightarrow> user data_result" where
  "getUsers st =
     dataResult (filter (\<lambda>u. u_status u = ACTIVE \<and> notSynchronizedBillingData u) (st_users st))"

fun hasCustomerID :: "string \<Rightarrow> user \<Rightarrow> bool" where
  "hasCustomerID cid u =
     (case u_billingData u of None \<Rightarrow> False | Some bd \<Rightarrow> bd_customerID bd = Some cid)"

text \<open>
  Modelled from the spec: \<^verbatim>\<open>UserStorage.getUserByBillingID\<close>, "user lookup by provider
  identity".
\<close>

definition getUserByBillingID :: "storage \<Rightarrow> string \<Rightarrow> user option" where
  "getUserByBillingID st cid = find (hasCustomerID cid) (st_users st)"

text \<open>
  Modelled from the spec: \<^verbatim>\<open>UserStorage.saveUserBillingData\<close>, "upsert of billing data"
  on the user of the given identifier.
\<close>

definition saveUserBillingData :: "storage \<Rightarrow> string \<Rightarrow> billing_data option \<Rightarrow> storage" where
  "saveUserBillingData st uid bd =
     st\<lparr>st_users := map (\<lambda>u. if u_id u = uid then u\<lparr>u_billingData := bd\<rparr> else u) (st_users st)\<rparr>"

text \<open>
  Modelled from the spec: \<^verbatim>\<open>BillingStorage.getInvoiceByBillingInvoiceID\<close>, "invoice
  lookup by provider identity".
\<close>

definition getInvoiceByBillingInvoiceID :: "storage \<Rightarrow> string \<Rightarrow> invoice option" where
  "getInvoiceByBillingInvoiceID st iid = find (\<lambda>i. inv_invoiceID i = iid) (st_invoices st)"

text \<open>
  Modelled from the spec: \<^verbatim>\<open>BillingStorage.deleteInvoiceByInvoiceID\<close>, "invoice
  deletion"; the source passes the provider's identifier, by which a local invoice is
  "uniquely keyed".
\<close>

definition deleteInvoiceByInvoiceID :: "storage \<Rightarrow> string \<Rightarrow> storage" where
  "deleteInvoiceByInvoiceID st iid =
     st\<lparr>st_invoices := filter (\<lambda>i. inv_invoiceID i \<noteq> iid) (st_invoices st)\<rparr>"

text \<open>
  Modelled from the spec: \<^verbatim>\<open>BillingStorage.saveInvoice\<close>, "invoice upsert". Without a
  local identifier the storage gives the next one; with one it replaces the record of that
  identifier, or inserts the invoice; it returns the identifier, as the source expects.
\<close>

definition saveInvoice :: "storage \<Rightarrow> invoice \<Rightarrow> nat \<times> storage" where
  "saveInvoice st b =
     (case inv_id b of
        None \<Rightarrow>
          (st_nextInvoiceID st,
           st\<lparr>st_invoices := st_invoices st @ [b\<lparr>inv_id := Some (st_nextInvoiceID st)\<rparr>],
              st_nextInvoiceID := Suc (st_nextInvoiceID st)\<rparr>)
      | Some k \<Rightarrow>
          if list_ex (\<lambda>i. inv_id i = Some k) (st_invoices st) then
            (k, st\<lparr>st_invoices := map (\<lambda>i. if inv_id i = Some k then b else i) (st_invoices st)\<rparr>)
          else (k, st\<lparr>st_invoices := st_invoices st @ [b]\<rparr>))"

text \<open>
  Modelled from the spec: \<^verbatim>\<open>BillingStorage.saveInvoiceDocument\<close>, "document
  persistence", the document "keyed by invoice id".
\<close>

definition saveInvoiceDocument :: "storage \<Rightarrow> invoice_document \<Rightarrow> storage" where
  "saveInvoiceDocument st d =
     st\<lparr>st_documents :=
          filter (\<lambda>x. doc_invoiceID x \<noteq> doc_invoiceID d) (st_documents st) @ [d]\<rparr>"


text \<open>
  Modelled from the spec: \<^verbatim>\<open>SettingStorage.getBillingSettings\<close>, "settings read".
\<close>

definition getBillingSettings :: "storage \<Rightarrow> billing_settings" where
  "getBillingSettings st = st_settings st"

text \<open>
  Modelled from the spec: \<^verbatim>\<open>SettingStorage.saveBillingSettings\<close>, "settings write".
\<close>

definition saveBillingSettings :: "storage \<Rightarrow> billing_settings \<Rightarrow> storage" where
  "saveBillingSettings st bs = st\<lparr>st_settings := bs\<rparr>"

section \<open>The provider contract and the world\<close>

text \<open>
  The abstract methods of the class are the fields of a record of functions over a provider
  state \<open>'p\<close> of any type: each takes the state, returns a result or a thrown error, and
  the next state. Nothing is assumed about an implementation.
\<close>

record 'p provider =
  checkConnection :: "'p \<Rightarrow> (error + unit) \<times> 'p"
  getUpdatedUserIDsInBilling :: "'p \<Rightarrow> (error + string list) \<times> 'p"
  getUser :: "string \<Rightarrow> 'p \<Rightarrow> (error + billing_user option) \<times> 'p"
  getUserByEmail :: "string \<Rightarrow> 'p \<Rightarrow> (error + billing_user option) \<times> 'p"
  createUser :: "user \<Rightarrow> 'p \<Rightarrow> (error + billing_user) \<times> 'p"
  updateUser :: "user \<Rightarrow> 'p \<Rightarrow> (error + billing_user) \<times> 'p"
  userExists :: "user \<Rightarrow> 'p \<Rightarrow> (error + bool) \<times> 'p"
  getInvoice :: "string \<Rightarrow> 'p \<Rightarrow> (error + invoice option) \<times> 'p"
  getUpdatedInvoiceIDsInBilling ::
    "billing_user option \<Rightarrow> 'p \<Rightarrow> (error + string list option) \<times> 'p"
  downloadInvoiceDocument :: "invoice \<Rightarrow> 'p \<Rightarrow> (error + invoice_document option) \<times> 'p"
  chargeInvoice :: "invoice \<Rightarrow> 'p \<Rightarrow> (error + unit) \<times> 'p"

text \<open>
  The calls made to the provider, in order. The list is a record of what the code did,
  kept beside the program's state: the code never reads it.
\<close>

datatype event =
    EvCheckConnection
  | EvGetUpdatedUserIDsInBilling
  | EvGetUser string
  | EvGetUserByEmail string
  | EvUserExists user "error + bool"
  | EvCreateUser user bool             \<comment> \<open>the flag: the call returned a customer\<close>
  | EvUpdateUser user bool
  | EvGetInvoice string
  | EvGetUpdatedInvoiceIDsInBilling "billing_user option"
  | EvDownloadInvoiceDocument invoice "error + invoice_document option"
  | EvChargeInvoice invoice bool       \<comment> \<open>the flag: the settlement went through\<close>

record 'p world =
  store :: storage
  prov :: 'p
  clock :: nat
  calls :: "event list"

type_synonym ('a, 'p) io = "'p world \<Rightarrow> (error + 'a) \<times> 'p world"

definition call :: "('p \<Rightarrow> (error + 'a) \<times> 'p) \<Rightarrow> (error + 'a \<Rightarrow> event) \<Rightarrow> ('a, 'p) io" where
  "call f ev w =
     (case f (prov w) of (r, p') \<Rightarrow> (r, w\<lparr>prov := p', calls := calls w @ [ev r]\<rparr>))"

text \<open>\<^verbatim>\<open>new Date()\<close>: the clock is read, and it never shows the same time twice.\<close>

definition newDate :: "'p world \<Rightarrow> nat \<times> 'p world" where
  "newDate w = (clock w, w\<lparr>clock := Suc (clock w)\<rparr>)"

fun succeeded :: "error + 'a \<Rightarrow> bool" where
  "succeeded (Inl e) = False"
| "succeeded (Inr x) = True"

record actions =
  inSuccess :: nat
  inError :: nat

definition countSuccess :: "actions \<Rightarrow> actions" where
  "countSuccess a = a\<lparr>inSuccess := Suc (inSuccess a)\<rparr>"

definition countError :: "actions \<Rightarrow> actions" where
  "countError a = a\<lparr>inError := Suc (inError a)\<rparr>"

text \<open>
  The catch handlers of the first loop of \<^verbatim>\<open>synchronizeUsers\<close>, of the loop of
  \<^verbatim>\<open>synchronizeInvoices\<close> and of the loop of \<^verbatim>\<open>chargeInvoices\<close> build their log entry
  from \<^verbatim>\<open>error.message\<close> and \<^verbatim>\<open>error.stack\<close>. When the value caught is
  \<^verbatim>\<open>undefined\<close> or \<^verbatim>\<open>null\<close>, the read throws the runtime's TypeError out of the
  handler, and so out of the loop and the method.
\<close>

definition logThrown :: "error \<Rightarrow> error + unit" where
  "logThrown e =
     (if e = Nullish then Inl (TypeError ''Cannot read properties of undefined (reading message)'')
      else Inr ())"

section \<open>Synchronization of the users\<close>

definition synchronizeUser :: "'p provider \<Rightarrow> user \<Rightarrow> (unit, 'p) io" where
  "synchronizeUser P u w =
     (case call (userExists P u) (EvUserExists u) w of
        (Inl e, w1) \<Rightarrow> (Inl e, w1)
      | (Inr ex, w1) \<Rightarrow>
          (case (if ex then call (updateUser P u) (\<lambda>r. EvUpdateUser u (succeeded r)) w1
                 else call (createUser P u) (\<lambda>r. EvCreateUser u (succeeded r)) w1) of
             (Inl e, w2) \<Rightarrow> (Inl e, w2)
           | (Inr newUser, w2) \<Rightarrow>
               (Inr (), w2\<lparr>store := saveUserBillingData (store w2) (u_id u)
                                      (bu_billingData newUser)\<rparr>)))"

text \<open>
  The first loop of \<^verbatim>\<open>synchronizeUsers\<close>: each new user in a try block of its own,
  whose handler counts the error and logs it.
\<close>

fun syncNewUsers :: "'p provider \<Rightarrow> user list \<Rightarrow> actions \<Rightarrow> (actions, 'p) io" where
  "syncNewUsers P [] a w = (Inr a, w)"
| "syncNewUsers P (u # us) a w =
     (case synchronizeUser P u w of
        (Inr x, w1) \<Rightarrow> syncNewUsers P us (countSuccess a) w1
      | (Inl e, w1) \<Rightarrow>
          (case logThrown e of
             Inl t \<Rightarrow> (Inl t, w1)
           | Inr y \<Rightarrow> syncNewUsers P us (countError a) w1))"

text \<open>
  The second loop: the customer identifiers the provider reports as changed. The call of
  \<^verbatim>\<open>getUser\<close> stands outside the try block, so what it throws leaves the loop and the
  method. The handler of this loop does not read the value it caught.
\<close>

fun syncChangedUsers :: "'p provider \<Rightarrow> string list \<Rightarrow> actions \<Rightarrow> (actions, 'p) io" where
  "syncChangedUsers P [] a w = (Inr a, w)"
| "syncChangedUsers P (cid # cids) a w =
     (case getUserByBillingID (store w) cid of
        None \<Rightarrow> syncChangedUsers P cids (countError a) w
      | Some u \<Rightarrow>
          (case call (getUser P cid) (\<lambda>r. EvGetUser cid) w of
             (Inl e, w1) \<Rightarrow> (Inl e, w1)
           | (Inr None, w1) \<Rightarrow>
               (case u_billingData u of
                  None \<Rightarrow>
                    (Inl (TypeError ''Cannot set properties of undefined (setting hasSynchroError)''),
                     w1)
                | Some bd \<Rightarrow>
                    syncChangedUsers P cids (countError a)
                      (w1\<lparr>store := saveUserBillingData (store w1) (u_id u)
                                     (Some (bd\<lparr>bd_hasSynchroError := True\<rparr>))\<rparr>))
           | (Inr (Some billingUser), w1) \<Rightarrow>
               (case synchronizeUser P u w1 of
                  (Inr x, w2) \<Rightarrow> syncChangedUsers P cids (countSuccess a) w2
                | (Inl e, w2) \<Rightarrow> syncChangedUsers P cids (countError a) w2)))"

definition stampUsersLastSynchronizedOn :: "'p world \<Rightarrow> 'p world" where
  "stampUsersLastSynchronizedOn w =
     (let billingSettings = getBillingSettings (store w);
          (d, w1) = newDate w;
          stamped = billingSettings\<lparr>bs_stripe :=
                      (bs_stripe billingSettings)\<lparr>ss_usersLastSynchronizedOn := Some d\<rparr>\<rparr>
      in w1\<lparr>store := saveBillingSettings (store w1) stamped\<rparr>)"

definition synchronizeUsers :: "'p provider \<Rightarrow> (actions, 'p) io" where
  "synchronizeUsers P w =
     (case call (checkConnection P) (\<lambda>r. EvCheckConnection) w of
        (Inl e, w0) \<Rightarrow> (Inl e, w0)
      | (Inr x, w0) \<Rightarrow>
          (let usersBillingInError = getUsersInError (store w0);
               a0 = \<lparr>inSuccess = 0, inError = length (dr_result usersBillingInError)\<rparr>;
               newUsersToSyncInBilling = getUsers (store w0)
           in case (if dr_count newUsersToSyncInBilling > 0
                    then syncNewUsers P (dr_result newUsersToSyncInBilling) a0 w0
                    else (Inr a0, w0)) of
                (Inl e, w1) \<Rightarrow> (Inl e, w1)
              | (Inr a1, w1) \<Rightarrow>
                  (case call (getUpdatedUserIDsInBilling P) (\<lambda>r. EvGetUpdatedUserIDsInBilling) w1 of
                     (Inl e, w2) \<Rightarrow> (Inl e, w2)
                   | (Inr ids, w2) \<Rightarrow>
                       (case (if length ids > 0 then syncChangedUsers P ids a1 w2
                              else (Inr a1, w2)) of
                          (Inl e, w3) \<Rightarrow> (Inl e, w3)
                        | (Inr a2, w3) \<Rightarrow> (Inr a2, stampUsersLastSynchronizedOn w3)))))"

section \<open>Synchronization of the invoices\<close>

fun lacksCustomerID :: "billing_data option \<Rightarrow> bool" where
  "lacksCustomerID None = True"
| "lacksCustomerID (Some bd) = (\<not> truthy (bd_customerID bd))"

fun customerIDOf :: "billing_data option \<Rightarrow> string option" where
  "customerIDOf None = None"
| "customerIDOf (Some bd) = bd_customerID bd"

definition checkAndGetBillingUser :: "'p provider \<Rightarrow> user \<Rightarrow> (billing_user, 'p) io" where
  "checkAndGetBillingUser P u w =
     (case call (getUserByEmail P (u_email u)) (\<lambda>r. EvGetUserByEmail (u_email u)) w of
        (Inl e, w1) \<Rightarrow> (Inl e, w1)
      | (Inr None, w1) \<Rightarrow> (Inl (BackendError ''User does not exist in billing system''), w1)
      | (Inr (Some billingUser), w1) \<Rightarrow>
          (if lacksCustomerID (bu_billingData billingUser) then
             (Inl (BackendError ''User has no billing data in billing system''), w1)
           else if lacksCustomerID (u_billingData u) then
             (Inl (BackendError ''User has no billing data in e-Mobility''), w1)
           else if customerIDOf (u_billingData u) \<noteq> customerIDOf (bu_billingData billingUser) then
             (Inl (BackendError
                     ''User has not the billing data in e-Mobility and in the billing system''),
              w1)
           else (Inr billingUser, w1)))"

text \<open>
  The download step of one invoice, after its first save: the provider is asked for the
  document when there was no local invoice, or the invoice is not downloadable, or the
  number of items differs; a document that comes back is stored, and the invoice saved
  again as downloadable.
\<close>

definition downloadNeeded :: "invoice option \<Rightarrow> invoice \<Rightarrow> bool" where
  "downloadNeeded prior b =
     (prior = None \<or> \<not> inv_downloadable b \<or>
      map_option inv_nbrOfItems prior \<noteq> Some (inv_nbrOfItems b))"

definition downloadStep :: "'p provider \<Rightarrow> invoice option \<Rightarrow> invoice \<Rightarrow> (unit, 'p) io" where
  "downloadStep P prior b w =
     (if downloadNeeded prior b then
        (case call (downloadInvoiceDocument P b) (EvDownloadInvoiceDocument b) w of
           (Inl e, w1) \<Rightarrow> (Inl e, w1)
         | (Inr None, w1) \<Rightarrow> (Inr (), w1)
         | (Inr (Some d), w1) \<Rightarrow>
             (let st1 = saveInvoiceDocument (store w1) d;
                  (k, st2) = saveInvoice st1 (b\<lparr>inv_downloadable := True\<rparr>)
              in (Inr (), w1\<lparr>store := st2\<rparr>)))
      else (Inr (), w))"

text \<open>
  The stamp of the invoice's user: \<^verbatim>\<open>userInInvoice.billingData.invoicesLastSynchronizedOn
  = new Date()\<close> and the save of the billing data. The user object is changed in place,
  so the changed user is returned too.
\<close>

definition stampUserInvoices :: "user \<Rightarrow> 'p world \<Rightarrow> (error + user) \<times> 'p world" where
  "stampUserInvoices u w =
     (case u_billingData u of
        None \<Rightarrow>
          (Inl (TypeError
                  ''Cannot set properties of undefined (setting invoicesLastSynchronizedOn)''),
           w)
      | Some bd \<Rightarrow>
          (let (d, w1) = newDate w;
               bd1 = bd\<lparr>bd_invoicesLastSynchronizedOn := Some d\<rparr>
           in (Inr (u\<lparr>u_billingData := Some bd1\<rparr>),
               w1\<lparr>store := saveUserBillingData (store w1) (u_id u) (Some bd1)\<rparr>)))"

text \<open>
  The steps of the try block of one invoice identifier, in the order of the source: the
  local identifier of the prior record is set back on the provider's invoice; the user of
  the invoice is the user of a scoped call, or else the local user with the invoice's
  customer identifier; the user and the prior \<^verbatim>\<open>downloadable\<close> flag are written on the
  invoice before its first save.
\<close>

definition withPriorId :: "invoice option \<Rightarrow> invoice \<Rightarrow> invoice" where
  "withPriorId prior b = (case prior of None \<Rightarrow> b | Some p \<Rightarrow> b\<lparr>inv_id := inv_id p\<rparr>)"

definition priorDownloadable :: "invoice option \<Rightarrow> bool" where
  "priorDownloadable prior = (case prior of None \<Rightarrow> False | Some p \<Rightarrow> inv_downloadable p)"

definition resolveUser :: "user option \<Rightarrow> storage \<Rightarrow> invoice \<Rightarrow> user option" where
  "resolveUser usr st b =
     (case usr of Some u \<Rightarrow> Some u | None \<Rightarrow> getUserByBillingID st (inv_customerID b))"

definition withUser :: "invoice option \<Rightarrow> user \<Rightarrow> invoice \<Rightarrow> invoice" where
  "withUser prior ui b =
     b\<lparr>inv_user := Some ui, inv_userID := Some (u_id ui),
       inv_downloadable := priorDownloadable prior\<rparr>"

text \<open>
  The result of the try block says whether the item counts as a success (\<open>True\<close>) or as
  an error (\<open>False\<close>, the branches that end in \<^verbatim>\<open>continue\<close> after \<^verbatim>\<open>inError++\<close>), or is
  what the block threw; the user of a scoped call is handed on, changed or not.
\<close>

definition upsertInvoice ::
  "'p provider \<Rightarrow> user option \<Rightarrow> invoice option \<Rightarrow> invoice \<Rightarrow> user \<Rightarrow> 'p world \<Rightarrow>
   (error + bool) \<times> user option \<times> 'p world"
where
  "upsertInvoice P usr prior b1 ui w =
     (let b2 = withUser prior ui b1;
          (k, st2) = saveInvoice (store w) b2;
          b3 = b2\<lparr>inv_id := Some k\<rparr>
      in case downloadStep P prior b3 (w\<lparr>store := st2\<rparr>) of
           (Inl e, w3) \<Rightarrow> (Inl e, usr, w3)
         | (Inr x, w3) \<Rightarrow>
             (case stampUserInvoices ui w3 of
                (Inl e, w4) \<Rightarrow> (Inl e, usr, w4)
              | (Inr ui1, w4) \<Rightarrow> (Inr True, map_option (\<lambda>u. ui1) usr, w4)))"

definition tryInvoice ::
  "'p provider \<Rightarrow> user option \<Rightarrow> string \<Rightarrow> 'p world \<Rightarrow> (error + bool) \<times> user option \<times> 'p world"
where
  "tryInvoice P usr iid w =
     (case call (getInvoice P iid) (\<lambda>r. EvGetInvoice iid) w of
        (Inl e, w1) \<Rightarrow> (Inl e, usr, w1)
      | (Inr None, w1) \<Rightarrow>
          (case getInvoiceByBillingInvoiceID (store w1) iid of
             None \<Rightarrow> (Inr False, usr, w1)
           | Some p \<Rightarrow> (Inr True, usr, w1\<lparr>store := deleteInvoiceByInvoiceID (store w1) iid\<rparr>))
      | (Inr (Some b0), w1) \<Rightarrow>
          (let prior = getInvoiceByBillingInvoiceID (store w1) iid;
               b1 = withPriorId prior b0
           in case resolveUser usr (store w1) b1 of
                None \<Rightarrow> (Inr False, usr, w1)
              | Some ui \<Rightarrow> upsertInvoice P usr prior b1 ui w1))"

text \<open>
  The loop over the identifiers: whatever the try block throws is caught, counted and
  logged by the handler. The user of a scoped call, as the last item left it, is returned
  with the tally.
\<close>

fun syncInvoices ::
  "'p provider \<Rightarrow> user option \<Rightarrow> string list \<Rightarrow> actions \<Rightarrow> 'p world \<Rightarrow>
   (error + actions) \<times> user option \<times> 'p world"
where
  "syncInvoices P usr [] a w = (Inr a, usr, w)"
| "syncInvoices P usr (iid # iids) a w =
     (case tryInvoice P usr iid w of
        (Inr True, usr1, w1) \<Rightarrow> syncInvoices P usr1 iids (countSuccess a) w1
      | (Inr False, usr1, w1) \<Rightarrow> syncInvoices P usr1 iids (countError a) w1
      | (Inl e, usr1, w1) \<Rightarrow>
          (case logThrown e of
             Inl t \<Rightarrow> (Inl t, usr1, w1)
           | Inr y \<Rightarrow> syncInvoices P usr1 iids (countError a) w1))"

definition stampInvoicesLastSynchronizedOn :: "'p world \<Rightarrow> 'p world" where
  "stampInvoicesLastSynchronizedOn w =
     (let billingSettings = getBillingSettings (store w);
          (d, w1) = newDate w;
          stamped = billingSettings\<lparr>bs_stripe :=
                      (bs_stripe billingSettings)\<lparr>ss_invoicesLastSynchronizedOn := Some d\<rparr>\<rparr>
      in w1\<lparr>store := saveBillingSettings (store w1) stamped\<rparr>)"

text \<open>
  The part of \<^verbatim>\<open>synchronizeInvoices\<close> after the check of the billing user: the query of
  the changed invoice identifiers, the loop, and the watermark of an unscoped call.
\<close>

definition sweepInvoices ::
  "'p provider \<Rightarrow> user option \<Rightarrow> billing_user option \<Rightarrow> (actions, 'p) io" where
  "sweepInvoices P usr billingUser w =
     (case call (getUpdatedInvoiceIDsInBilling P billingUser)
                (\<lambda>r. EvGetUpdatedInvoiceIDsInBilling billingUser) w of
        (Inl e, w1) \<Rightarrow> (Inl e, w1)
      | (Inr invoiceIDsInBilling, w1) \<Rightarrow>
          (let a0 = \<lparr>inSuccess = 0, inError = 0\<rparr>
           in case (case invoiceIDsInBilling of
                      None \<Rightarrow> (Inr a0, usr, w1)
                    | Some ids \<Rightarrow>
                        if length ids > 0 then syncInvoices P usr ids a0 w1
                        else (Inr a0, usr, w1)) of
                (Inl e, usr1, w2) \<Rightarrow> (Inl e, w2)
              | (Inr a1, usr1, w2) \<Rightarrow>
                  (Inr a1, if usr = None then stampInvoicesLastSynchronizedOn w2 else w2)))"

definition synchronizeInvoices :: "'p provider \<Rightarrow> user option \<Rightarrow> (actions, 'p) io" where
  "synchronizeInvoices P usr w =
     (case call (checkConnection P) (\<lambda>r. EvCheckConnection) w of
        (Inl e, w0) \<Rightarrow> (Inl e, w0)
      | (Inr x, w0) \<Rightarrow>
          (case usr of
             None \<Rightarrow> sweepInvoices P None None w0
           | Some u \<Rightarrow>
               (case checkAndGetBillingUser P u w0 of
                  (Inl e, w1) \<Rightarrow> (Inl e, w1)
                | (Inr billingUser, w1) \<Rightarrow>
                    sweepInvoices P usr
                      (Some (billingUser\<lparr>bu_billingData := u_billingData u\<rparr>)) w1)))"

section \<open>Charging of the open invoices\<close>



section \<open>A provider in memory\<close>

text \<open>
  One implementation of the contract, to run the methods on: the customers and invoices it
  holds, the identifiers it reports as changed, the documents it can deliver, and the
  e-mail addresses and invoice identifiers for which it throws.
\<close>

record mem =
  m_customers :: "billing_user list"
  m_invoices :: "invoice list"
  m_changedUsers :: "string list"
  m_changedInvoices :: "string list"
  m_documents :: "(string \<times> string) list"
  m_rejected :: "string list"

definition customerFor :: "user \<Rightarrow> billing_user" where
  "customerFor u =
     \<lparr>bu_email = u_email u,
      bu_billingData = Some \<lparr>bd_customerID = Some (''cus_'' @ u_id u),
                             bd_hasSynchroError = False,
                             bd_invoicesLastSynchronizedOn = None\<rparr>\<rparr>"

definition memProvider :: "mem provider" where
  "memProvider =
     \<lparr>checkConnection = (\<lambda>p. (Inr (), p)),
      getUpdatedUserIDsInBilling = (\<lambda>p. (Inr (m_changedUsers p), p)),
      getUser = (\<lambda>cid p.
        (Inr (find (\<lambda>c. customerIDOf (bu_billingData c) = Some cid) (m_customers p)), p)),
      getUserByEmail = (\<lambda>e p. (Inr (find (\<lambda>c. bu_email c = e) (m_customers p)), p)),
      createUser = (\<lambda>u p.
        if u_email u \<in> set (m_rejected p) then (Inl (ProviderError ''customer rejected''), p)
        else (Inr (customerFor u), p\<lparr>m_customers := m_customers p @ [customerFor u]\<rparr>)),
      updateUser = (\<lambda>u p.
        if u_email u \<in> set (m_rejected p) then (Inl (ProviderError ''customer rejected''), p)
        else (case find (\<lambda>c. bu_email c = u_email u) (m_customers p) of
                None \<Rightarrow> (Inl (ProviderError ''no such customer''), p)
              | Some c \<Rightarrow> (Inr c, p))),
      userExists = (\<lambda>u p. (Inr (list_ex (\<lambda>c. bu_email c = u_email u) (m_customers p)), p)),
      getInvoice = (\<lambda>iid p. (Inr (find (\<lambda>i. inv_invoiceID i = iid) (m_invoices p)), p)),
      getUpdatedInvoiceIDsInBilling = (\<lambda>bu p. (Inr (Some (m_changedInvoices p)), p)),
      downloadInvoiceDocument = (\<lambda>i p.
        if inv_invoiceID i \<in> set (m_rejected p) then (Inl (ProviderError ''download failed''), p)
        else (Inr (map_option (\<lambda>c. \<lparr>doc_invoiceID = inv_id i, doc_content = c\<rparr>)
                     (map_of (m_documents p) (inv_invoiceID i))), p)),
      chargeInvoice = (\<lambda>i p.
        if inv_invoiceID i \<in> set (m_rejected p) then (Inl (ProviderError ''card declined''), p)
        else (Inr (), p))\<rparr>"

definition emptyMem :: mem where
  "emptyMem =
     \<lparr>m_customers = [], m_invoices = [], m_changedUsers = [], m_changedInvoices = [],
      m_documents = [], m_rejected = []\<rparr>"

definition emptySettings :: billing_settings where
  "emptySettings =
     \<lparr>bs_stripe = \<lparr>ss_usersLastSynchronizedOn = None, ss_invoicesLastSynchronizedOn = None\<rparr>\<rparr>"

definition emptyStorage :: storage where
  "emptyStorage =
     \<lparr>st_users = [], st_invoices = [], st_documents = [], st_settings = emptySettings,
      st_nextInvoiceID = 0\<rparr>"

definition mkWorld :: "storage \<Rightarrow> mem \<Rightarrow> mem world" where
  "mkWorld st p = \<lparr>store = st, prov = p, clock = 100, calls = []\<rparr>"




text \<open>
  The condition under which a scoped synchronization of the invoices is fatal, as the
  specification words it: no customer at the provider, or billing data or a customer
  identifier missing on either side, or two identifiers that differ.
\<close>

fun noVerifiedIdentity :: "user \<Rightarrow> billing_user option \<Rightarrow> bool" where
  "noVerifiedIdentity u None = True"
| "noVerifiedIdentity u (Some c) =
     (case (bu_billingData c, u_billingData u) of
        (Some pb, Some lb) \<Rightarrow>
          (if truthy (bd_customerID pb) \<and> truthy (bd_customerID lb)
           then bd_customerID lb \<noteq> bd_customerID pb else True)
      | (Some pb, None) \<Rightarrow> True
      | (None, lb) \<Rightarrow> True)"

definition provInvoice :: "string \<Rightarrow> nat \<Rightarrow> invoice" where
  "provInvoice iid n =
     \<lparr>inv_id = None, inv_invoiceID = iid, inv_customerID = ''cus_u1'', inv_userID = None,
      inv_user = None, inv_status = OPEN, inv_nbrOfItems = n, inv_downloadable = False\<rparr>"

text \<open>
  One local user known to the provider, which reports two changed invoices: one it holds,
  with three items and a document, and one that neither side has.
\<close>

definition invoiceWorld :: "mem world" where
  "invoiceWorld =
     mkWorld (emptyStorage\<lparr>st_users := [sampleUser]\<rparr>)
             (emptyMem\<lparr>m_customers := [customerFor sampleUser],
                       m_invoices := [provInvoice ''in_1'' 3],
                       m_changedInvoices := [''in_1'', ''in_gone''],
                       m_documents := [(''in_1'', ''pdf'')]\<rparr>)"

text \<open>The same, with a local customer identifier that is not the provider's.\<close>

definition mismatchedUser :: user where
  "mismatchedUser =
     sampleUser\<lparr>u_billingData := Some (sampleBillingData\<lparr>bd_customerID := Some ''cus_other''\<rparr>)\<rparr>"

text \<open>
  The provider cannot deliver the document of its one changed invoice: the download throws.
\<close>

definition downloadFailWorld :: "mem world" where
  "downloadFailWorld =
     mkWorld (emptyStorage\<lparr>st_users := [sampleUser]\<rparr>)
             (emptyMem\<lparr>m_customers := [customerFor sampleUser],
                       m_invoices := [provInvoice ''in_1'' 3],
                       m_changedInvoices := [''in_1''],
                       m_rejected := [''in_1'']\<rparr>)"

text \<open>The provider has no document for its one changed invoice: the download returns nothing.\<close>

definition noDocumentWorld :: "mem world" where
  "noDocumentWorld =
     mkWorld (emptyStorage\<lparr>st_users := [sampleUser]\<rparr>)
             (emptyMem\<lparr>m_customers := [customerFor sampleUser],
                       m_invoices := [provInvoice ''in_1'' 3],
                       m_changedInvoices := [''in_1'']\<rparr>)"

text \<open>The invoice \<^verbatim>\<open>in_1\<close> as the first save of a synchronization stores it.\<close>

definition savedInvoice :: invoice where
  "savedInvoice =
     (provInvoice ''in_1'' 3)\<lparr>inv_id := Some 0, inv_user := Some sampleUser,
                               inv_userID := Some ''u1''\<rparr>"

text \<open>
  A local invoice that the provider no longer has, and the provider reporting its
  identifier as changed.
\<close>

definition deletedUpstreamWorld :: "mem world" where
  "deletedUpstreamWorld =
     mkWorld (emptyStorage\<lparr>st_users := [sampleUser], st_invoices := [savedInvoice],
                            st_nextInvoiceID := 1\<rparr>)
             (emptyMem\<lparr>m_customers := [customerFor sampleUser],
                       m_changedInvoices := [''in_1'']\<rparr>)"

text \<open>
  The invoice \<^verbatim>\<open>in_1\<close> is stored, downloadable, with the three items the provider has.
\<close>

definition syncedWorld :: "mem world" where
  "syncedWorld =
     mkWorld (emptyStorage\<lparr>st_users := [sampleUser],
                            st_invoices := [savedInvoice\<lparr>inv_downloadable := True\<rparr>],
                            st_nextInvoiceID := 1\<rparr>)
             (emptyMem\<lparr>m_customers := [customerFor sampleUser],
                       m_invoices := [provInvoice ''in_1'' 3],
                       m_changedInvoices := [''in_1''],
                       m_documents := [(''in_1'', ''pdf'')]\<rparr>)"

text \<open>
  Three users flagged with a synchronization error and two active users never synchronized;
  the provider rejects the second of the two.
\<close>

definition flaggedUser :: "string \<Rightarrow> user" where
  "flaggedUser n =
     \<lparr>u_id = n, u_email = n @ ''@example.org'', u_status = ACTIVE,
      u_billingData = Some \<lparr>bd_customerID = Some (''cus_'' @ n), bd_hasSynchroError = True,
                            bd_invoicesLastSynchronizedOn = None\<rparr>\<rparr>"

definition newUser :: "string \<Rightarrow> user" where
  "newUser n =
     \<lparr>u_id = n, u_email = n @ ''@example.org'', u_status = ACTIVE, u_billingData = None\<rparr>"

definition fiveUsers :: storage where
  "fiveUsers =
     emptyStorage\<lparr>st_users := [flaggedUser ''e1'', flaggedUser ''e2'', flaggedUser ''e3'',
                               newUser ''n1'', newUser ''n2'']\<rparr>"

definition usersWorld :: "mem world" where
  "usersWorld = mkWorld fiveUsers (emptyMem\<lparr>m_rejected := [''n2@example.org'']\<rparr>)"

text \<open>
  The same, with a provider that reports as changed the customer of the first new user,
  the one the sweep is about to create.
\<close>

definition usersChangedWorld :: "mem world" where
  "usersChangedWorld =
     mkWorld fiveUsers
       (emptyMem\<lparr>m_rejected := [''n2@example.org''], m_changedUsers := [''cus_n1'']\<rparr>)"

text \<open>The first new user once its customer is stored.\<close>

definition syncedUser :: user where
  "syncedUser = (newUser ''n1'')\<lparr>u_billingData := bu_billingData (customerFor (newUser ''n1''))\<rparr>"




section \<open>The provider's side of a run\<close>


text \<open>
  \<open>roundTrip\<close> is the round-trip of one user to the provider: the question whether the
  user exists, then the creation of the customer when the answer is no and the update when
  it is yes. It returns the provider's answer, its state, and the calls made.
\<close>

definition roundTrip ::
  "'p provider \<Rightarrow> user \<Rightarrow> 'p \<Rightarrow> (error + billing_user) \<times> 'p \<times> event list" where
  "roundTrip P u p =
     (case userExists P u p of
        (Inl e, p1) \<Rightarrow> (Inl e, p1, [EvUserExists u (Inl e)])
      | (Inr True, p1) \<Rightarrow>
          (case updateUser P u p1 of
             (r, p2) \<Rightarrow> (r, p2, [EvUserExists u (Inr True), EvUpdateUser u (succeeded r)]))
      | (Inr False, p1) \<Rightarrow>
          (case createUser P u p1 of
             (r, p2) \<Rightarrow> (r, p2, [EvUserExists u (Inr False), EvCreateUser u (succeeded r)])))"

text \<open>The storage after a round-trip: the billing data of the customer returned are saved.\<close>

definition savedBilling :: "error + billing_user \<Rightarrow> user \<Rightarrow> storage \<Rightarrow> storage" where
  "savedBilling r u st =
     (case r of
        Inl e \<Rightarrow> st
      | Inr c \<Rightarrow> saveUserBillingData st (u_id u) (bu_billingData c))"


text \<open>
  The provider in memory again, rejecting with \<^verbatim>\<open>undefined\<close> where it threw an error
  object.
\<close>

definition nullishProvider :: "mem provider" where
  "nullishProvider =
     memProvider
       \<lparr>createUser := (\<lambda>u p.
          if u_email u \<in> set (m_rejected p) then (Inl Nullish, p)
          else createUser memProvider u p),
        downloadInvoiceDocument := (\<lambda>i p.
          if inv_invoiceID i \<in> set (m_rejected p) then (Inl Nullish, p)
          else downloadInvoiceDocument memProvider i p),
        chargeInvoice := (\<lambda>i p.
          if inv_invoiceID i \<in> set (m_rejected p) then (Inl Nullish, p)
          else chargeInvoice memProvider i p)\<rparr>"


text \<open>The sum of two tallies.\<close>

definition addActions :: "actions \<Rightarrow> actions \<Rightarrow> actions" where
  "addActions a d =
     \<lparr>inSuccess = inSuccess a + inSuccess d, inError = inError a + inError d\<rparr>"

section \<open>Properties of the guards\<close>

lemma checkStopTransaction_complete:
  "truthy (t_userID t) \<Longrightarrow> t_user t = Some u \<Longrightarrow> t_chargeBox t = Some c \<Longrightarrow>
   t_billingData t = Some tb \<Longrightarrow>
   checkStopTransaction t =
     (if truthy (tb_invoiceID tb) then Inl (BackendError ''Transaction has already billing data'')
      else if u_billingData u = None then Inl (BackendError ''User has no Billing Data'')
      else Inr ())"
  by (simp add: checkStopTransaction_def)

text \<open>
  With billing data on the transaction, the guard raises its precondition error exactly in
  the four cases, and returns normally in every other.
\<close>

lemma checkStopTransaction_guard_iff:
  assumes "t_billingData t = Some tb"
  shows "isBackendError (checkStopTransaction t) \<longleftrightarrow>
           (\<not> truthy (t_userID t) \<or> t_user t = None \<or> t_chargeBox t = None \<or>
            truthy (tb_invoiceID tb) \<or> map_option u_billingData (t_user t) = Some None)"
    and "checkStopTransaction t = Inr () \<longleftrightarrow> \<not> isBackendError (checkStopTransaction t)"
  using assms by (auto simp: checkStopTransaction_def split: option.splits)

text \<open>
  C1. The guard is claimed to raise a precondition error exactly when the user, the
  charging station or the user's billing data is missing or an invoice reference is
  already there. At a transaction with a user id, a user without billing data, a
  charging station and no billing data of its own, the claim asks for the precondition
  error; the code throws the runtime's TypeError instead, which is not a BackendError.
\<close>

theorem checkStopTransaction_user_without_billing:
  "checkStopTransaction txUserWithoutBilling =
     Inl (TypeError ''Cannot read properties of undefined (reading invoiceID)'')"
  by (simp add: checkStopTransaction_def txUserWithoutBilling_def sampleUser_def)

theorem checkStopTransaction_user_without_billing_witness:
  "map_option u_billingData (t_user txUserWithoutBilling) = Some None \<and>
   \<not> isBackendError (checkStopTransaction txUserWithoutBilling)"
  using checkStopTransaction_user_without_billing
  by (simp add: txUserWithoutBilling_def sampleUser_def)

text \<open>
  C10. A transaction with a user id, a user and a charging station, whose own billing
  data is absent, makes the guard neither return normally nor raise its precondition
  error: the read of \<^verbatim>\<open>invoiceID\<close> dereferences the absent billing data.
\<close>

theorem checkStopTransaction_absent_billingData:
  assumes "truthy (t_userID t)" and "t_user t \<noteq> None" and "t_chargeBox t \<noteq> None"
    and "t_billingData t = None"
  shows "checkStopTransaction t \<noteq> Inr () \<and> \<not> isBackendError (checkStopTransaction t) \<and>
         (\<exists>m. checkStopTransaction t = Inl (TypeError m))"
  using assms by (simp add: checkStopTransaction_def)

theorem checkStopTransaction_absent_billingData_witness:
  "truthy (t_userID txNoBillingData) \<and> t_user txNoBillingData \<noteq> None \<and>
   t_chargeBox txNoBillingData \<noteq> None \<and> t_billingData txNoBillingData = None \<and>
   checkStopTransaction txNoBillingData \<noteq> Inr () \<and>
   \<not> isBackendError (checkStopTransaction txNoBillingData)"
  using checkStopTransaction_absent_billingData [of txNoBillingData]
  by (simp add: txNoBillingData_def)

section \<open>Calls of the provider\<close>


section \<open>The scoped call and the billing identity\<close>

lemma checkAndGetBillingUser_fatal:
  assumes look: "getUserByEmail P (u_email u) (prov w) = (Inr bu, p1)"
    and bad: "noVerifiedIdentity u bu"
  shows "\<exists>m. checkAndGetBillingUser P u w =
           (Inl (BackendError m),
            w\<lparr>prov := p1, calls := calls w @ [EvGetUserByEmail (u_email u)]\<rparr>)"
proof (cases bu)
  case None
  then show ?thesis using look by (simp add: checkAndGetBillingUser_def call_def)
next
  case (Some c)
  show ?thesis
  proof (cases "bu_billingData c")
    case None
    then show ?thesis using look Some by (simp add: checkAndGetBillingUser_def call_def)
  next
    case pb: (Some pb)
    show ?thesis
    proof (cases "u_billingData u")
      case None
      then show ?thesis using look Some pb by (simp add: checkAndGetBillingUser_def call_def)
    next
      case lb: (Some lb)
      then show ?thesis using look Some pb bad
        by (auto simp add: checkAndGetBillingUser_def call_def)
    qed
  qed
qed

text \<open>
  C6. A call scoped to a user, past the connection check, for which the provider knows no
  customer with the user's e-mail address, or billing data or a customer identifier is
  missing on either side, or the two identifiers differ, throws a BackendError to its
  caller. It has then called the provider for the connection check and the customer
  only: no invoice identifier was asked for or processed, and the storage is untouched.
\<close>

theorem synchronizeInvoices_scoped_identity_fatal:
  assumes conn: "checkConnection P (prov w) = (Inr (), p0)"
    and look: "getUserByEmail P (u_email u) p0 = (Inr bu, p1)"
    and bad: "noVerifiedIdentity u bu"
  shows "\<exists>m. synchronizeInvoices P (Some u) w =
           (Inl (BackendError m),
            w\<lparr>prov := p1, calls := calls w @ [EvCheckConnection, EvGetUserByEmail (u_email u)]\<rparr>)"
proof -
  define w0 where "w0 = w\<lparr>prov := p0, calls := calls w @ [EvCheckConnection]\<rparr>"
  have c: "call (checkConnection P) (\<lambda>r. EvCheckConnection) w = (Inr (), w0)"
    using conn by (simp add: call_def w0_def)
  have "getUserByEmail P (u_email u) (prov w0) = (Inr bu, p1)" using look by (simp add: w0_def)
  from checkAndGetBillingUser_fatal [OF this bad] obtain m where
    m: "checkAndGetBillingUser P u w0 =
          (Inl (BackendError m),
           w0\<lparr>prov := p1, calls := calls w0 @ [EvGetUserByEmail (u_email u)]\<rparr>)"
    by blast
  have "synchronizeInvoices P (Some u) w =
          (Inl (BackendError m),
           w0\<lparr>prov := p1, calls := calls w0 @ [EvGetUserByEmail (u_email u)]\<rparr>)"
    using c m by (simp add: synchronizeInvoices_def)
  then show ?thesis by (auto simp: w0_def)
qed

theorem synchronizeInvoices_scoped_identity_fatal_witness:
  "checkConnection memProvider (prov invoiceWorld) = (Inr (), prov invoiceWorld) \<and>
   getUserByEmail memProvider (u_email mismatchedUser) (prov invoiceWorld) =
     (Inr (Some (customerFor sampleUser)), prov invoiceWorld) \<and>
   noVerifiedIdentity mismatchedUser (Some (customerFor sampleUser)) \<and>
   (\<exists>m. synchronizeInvoices memProvider (Some mismatchedUser) invoiceWorld =
      (Inl (BackendError m),
       invoiceWorld\<lparr>prov := prov invoiceWorld,
                    calls := calls invoiceWorld @
                      [EvCheckConnection, EvGetUserByEmail (u_email mismatchedUser)]\<rparr>))"
proof -
  have c: "checkConnection memProvider (prov invoiceWorld) = (Inr (), prov invoiceWorld)"
    by (simp add: memProvider_def)
  have g: "getUserByEmail memProvider (u_email mismatchedUser) (prov invoiceWorld) =
     (Inr (Some (customerFor sampleUser)), prov invoiceWorld)"
    by (simp add: memProvider_def invoiceWorld_def mkWorld_def emptyMem_def mismatchedUser_def
        sampleUser_def customerFor_def)
  have b: "noVerifiedIdentity mismatchedUser (Some (customerFor sampleUser))"
    by (simp add: mismatchedUser_def sampleUser_def customerFor_def sampleBillingData_def)
  show ?thesis
    using c g b synchronizeInvoices_scoped_identity_fatal [OF c g b] by blast
qed

section \<open>Properties of the charging\<close>







section \<open>What the invoice synchronization leaves alone\<close>















section \<open>The steps of one invoice\<close>

lemma tryInvoice_absent:
  assumes g: "getInvoice P iid (prov w) = (Inr None, p1)"
  shows "tryInvoice P usr iid w =
           (case getInvoiceByBillingInvoiceID (store w) iid of
              None \<Rightarrow> (Inr False, usr, w\<lparr>prov := p1, calls := calls w @ [EvGetInvoice iid]\<rparr>)
            | Some p \<Rightarrow>
                (Inr True, usr,
                 w\<lparr>prov := p1, calls := calls w @ [EvGetInvoice iid],
                   store := deleteInvoiceByInvoiceID (store w) iid\<rparr>))"
  using g by (simp add: tryInvoice_def call_def split: option.splits)

lemma deleteInvoice_lookup:
  "getInvoiceByBillingInvoiceID (deleteInvoiceByInvoiceID st iid) iid = None"
  by (simp add: getInvoiceByBillingInvoiceID_def deleteInvoiceByInvoiceID_def find_None_iff)

lemma addActions_count:
  "countSuccess (addActions a b) = addActions a (countSuccess b)"
  "countError (addActions a b) = addActions a (countError b)"
  by (simp_all add: addActions_def countSuccess_def countError_def)

lemma addActions_zero: "addActions a \<lparr>inSuccess = 0, inError = 0\<rparr> = a"
  by (simp add: addActions_def)

lemma syncInvoices_add:
  "syncInvoices P usr ids (addActions a b) w =
     (case syncInvoices P usr ids b w of
        (Inl e, u, w') \<Rightarrow> (Inl e, u, w')
      | (Inr d, u, w') \<Rightarrow> (Inr (addActions a d), u, w'))"
proof (induction ids arbitrary: usr b w)
  case Nil
  then show ?case by simp
next
  case (Cons iid ids)
  obtain r usr1 w1 where t: "tryInvoice P usr iid w = (r, usr1, w1)"
    by (cases "tryInvoice P usr iid w") auto
  show ?case
  proof (cases r)
    case (Inr ok)
    then show ?thesis
      using t Cons.IH [of usr1 "countSuccess b" w1] Cons.IH [of usr1 "countError b" w1]
      by (cases ok) (simp_all add: addActions_count)
  next
    case (Inl e)
    then show ?thesis
      using t Cons.IH [of usr1 "countError b" w1]
      by (cases "logThrown e") (simp_all add: addActions_count)
  qed
qed

lemma syncInvoices_from:
  "syncInvoices P usr ids a w =
     (case syncInvoices P usr ids \<lparr>inSuccess = 0, inError = 0\<rparr> w of
        (Inl e, u, w') \<Rightarrow> (Inl e, u, w')
      | (Inr d, u, w') \<Rightarrow> (Inr (addActions a d), u, w'))"
  using syncInvoices_add [of P usr ids a "\<lparr>inSuccess = 0, inError = 0\<rparr>" w]
  by (simp add: addActions_zero)

text \<open>
  An item counted as a success, or as an error, is in the tally that the loop returns: the
  loop over the item alone returns the tally it was given with the one counter one higher,
  and the loop over the item and further identifiers returns that tally and what the
  further identifiers add to it.
\<close>

lemma syncInvoices_item:
  assumes t: "tryInvoice P usr iid w = (r, usr1, w1)"
    and r: "r = Inr True \<and> a1 = countSuccess a \<or> r = Inr False \<and> a1 = countError a \<or>
            (\<exists>e. r = Inl e \<and> e \<noteq> Nullish) \<and> a1 = countError a"
  shows "syncInvoices P usr [iid] a w = (Inr a1, usr1, w1)"
    and "syncInvoices P usr1 post \<lparr>inSuccess = 0, inError = 0\<rparr> w1 = (Inr d, u', w') \<Longrightarrow>
         syncInvoices P usr (iid # post) a w = (Inr (addActions a1 d), u', w')"
proof -
  have step: "syncInvoices P usr (iid # rest) a w = syncInvoices P usr1 rest a1 w1" for rest
    using t r by (auto simp: logThrown_def)
  show "syncInvoices P usr [iid] a w = (Inr a1, usr1, w1)" using step [of "[]"] by simp
  show "syncInvoices P usr (iid # post) a w = (Inr (addActions a1 d), u', w')"
    if "syncInvoices P usr1 post \<lparr>inSuccess = 0, inError = 0\<rparr> w1 = (Inr d, u', w')"
    using step [of post] syncInvoices_from [of P usr1 post a1 w1] that by simp
qed

text \<open>
  C5. An invoice identifier for which the provider returns no invoice, reached by the loop
  with any tally and in any state. When a local invoice with that provider identifier
  exists, the loop deletes it, so that no local invoice has the identifier afterwards, and
  returns the tally with the success counter one higher and the error counter as it was.
  When there is none either, the loop returns the tally with the error counter one higher
  and the success counter as it was, and the storage is as it was. With further
  identifiers after it, the tally returned is that tally and what they add to it.
\<close>

theorem syncInvoices_provider_absent:
  assumes g: "getInvoice P iid (prov w) = (Inr None, p1)"
  shows "(\<forall>x. getInvoiceByBillingInvoiceID (store w) iid = Some x \<longrightarrow>
            syncInvoices P usr [iid] a w =
              (Inr \<lparr>inSuccess = Suc (inSuccess a), inError = inError a\<rparr>, usr,
               w\<lparr>prov := p1, calls := calls w @ [EvGetInvoice iid],
                 store := deleteInvoiceByInvoiceID (store w) iid\<rparr>) \<and>
            getInvoiceByBillingInvoiceID (deleteInvoiceByInvoiceID (store w) iid) iid = None \<and>
            (\<forall>post d u' w'.
               syncInvoices P usr post \<lparr>inSuccess = 0, inError = 0\<rparr>
                 (w\<lparr>prov := p1, calls := calls w @ [EvGetInvoice iid],
                    store := deleteInvoiceByInvoiceID (store w) iid\<rparr>) = (Inr d, u', w') \<longrightarrow>
               syncInvoices P usr (iid # post) a w =
                 (Inr (addActions \<lparr>inSuccess = Suc (inSuccess a), inError = inError a\<rparr> d),
                  u', w'))) \<and>
         (getInvoiceByBillingInvoiceID (store w) iid = None \<longrightarrow>
            syncInvoices P usr [iid] a w =
              (Inr \<lparr>inSuccess = inSuccess a, inError = Suc (inError a)\<rparr>, usr,
               w\<lparr>prov := p1, calls := calls w @ [EvGetInvoice iid]\<rparr>) \<and>
            (\<forall>post d u' w'.
               syncInvoices P usr post \<lparr>inSuccess = 0, inError = 0\<rparr>
                 (w\<lparr>prov := p1, calls := calls w @ [EvGetInvoice iid]\<rparr>) = (Inr d, u', w') \<longrightarrow>
               syncInvoices P usr (iid # post) a w =
                 (Inr (addActions \<lparr>inSuccess = inSuccess a, inError = Suc (inError a)\<rparr> d),
                  u', w')))"
proof (intro conjI allI impI)
  fix x
  assume x: "getInvoiceByBillingInvoiceID (store w) iid = Some x"
  let ?w1 = "w\<lparr>prov := p1, calls := calls w @ [EvGetInvoice iid],
                store := deleteInvoiceByInvoiceID (store w) iid\<rparr>"
  let ?a1 = "\<lparr>inSuccess = Suc (inSuccess a), inError = inError a\<rparr>"
  have t: "tryInvoice P usr iid w = (Inr True, usr, ?w1)"
    using tryInvoice_absent [OF g] x by simp
  have r: "Inr True = Inr True \<and> ?a1 = countSuccess a \<or>
           (Inr True :: error + bool) = Inr False \<and> ?a1 = countError a \<or>
           (\<exists>e. (Inr True :: error + bool) = Inl e \<and> e \<noteq> Nullish) \<and> ?a1 = countError a"
    by (simp add: countSuccess_def)
  show "syncInvoices P usr [iid] a w = (Inr ?a1, usr, ?w1)"
    using syncInvoices_item(1) [OF t r] .
  show "getInvoiceByBillingInvoiceID (deleteInvoiceByInvoiceID (store w) iid) iid = None"
    by (rule deleteInvoice_lookup)
  fix post d u' w'
  assume "syncInvoices P usr post \<lparr>inSuccess = 0, inError = 0\<rparr> ?w1 = (Inr d, u', w')"
  from syncInvoices_item(2) [OF t r this]
  show "syncInvoices P usr (iid # post) a w = (Inr (addActions ?a1 d), u', w')" .
next
  assume n: "getInvoiceByBillingInvoiceID (store w) iid = None"
  let ?w1 = "w\<lparr>prov := p1, calls := calls w @ [EvGetInvoice iid]\<rparr>"
  let ?a1 = "\<lparr>inSuccess = inSuccess a, inError = Suc (inError a)\<rparr>"
  have t: "tryInvoice P usr iid w = (Inr False, usr, ?w1)"
    using tryInvoice_absent [OF g] n by simp
  have r: "(Inr False :: error + bool) = Inr True \<and> ?a1 = countSuccess a \<or>
           (Inr False :: error + bool) = Inr False \<and> ?a1 = countError a \<or>
           (\<exists>e. (Inr False :: error + bool) = Inl e \<and> e \<noteq> Nullish) \<and> ?a1 = countError a"
    by (simp add: countError_def)
  show "syncInvoices P usr [iid] a w = (Inr ?a1, usr, ?w1)"
    using syncInvoices_item(1) [OF t r] .
  fix post d u' w'
  assume "syncInvoices P usr post \<lparr>inSuccess = 0, inError = 0\<rparr> ?w1 = (Inr d, u', w')"
  from syncInvoices_item(2) [OF t r this]
  show "syncInvoices P usr (iid # post) a w = (Inr (addActions ?a1 d), u', w')" .
qed

theorem syncInvoices_provider_absent_witness:
  "getInvoice memProvider ''in_1'' (prov deletedUpstreamWorld) =
     (Inr None, prov deletedUpstreamWorld) \<and>
   getInvoiceByBillingInvoiceID (store deletedUpstreamWorld) ''in_1'' = Some savedInvoice \<and>
   syncInvoices memProvider None [''in_1''] \<lparr>inSuccess = 0, inError = 0\<rparr> deletedUpstreamWorld =
     (Inr \<lparr>inSuccess = 1, inError = 0\<rparr>, None,
      deletedUpstreamWorld
        \<lparr>calls := [EvGetInvoice ''in_1''],
         store := deleteInvoiceByInvoiceID (store deletedUpstreamWorld) ''in_1''\<rparr>) \<and>
   getInvoiceByBillingInvoiceID
     (deleteInvoiceByInvoiceID (store deletedUpstreamWorld) ''in_1'') ''in_1'' = None \<and>
   fst (synchronizeInvoices memProvider None deletedUpstreamWorld) =
     Inr \<lparr>inSuccess = 1, inError = 0\<rparr> \<and>
   st_invoices (store (snd (synchronizeInvoices memProvider None deletedUpstreamWorld))) = [] \<and>
   getInvoice memProvider ''in_gone'' (prov deletedUpstreamWorld) =
     (Inr None, prov deletedUpstreamWorld) \<and>
   getInvoiceByBillingInvoiceID (store deletedUpstreamWorld) ''in_gone'' = None \<and>
   syncInvoices memProvider None [''in_gone''] \<lparr>inSuccess = 0, inError = 0\<rparr>
     deletedUpstreamWorld =
     (Inr \<lparr>inSuccess = 0, inError = 1\<rparr>, None,
      deletedUpstreamWorld\<lparr>calls := [EvGetInvoice ''in_gone'']\<rparr>)"
proof -
  have g1: "getInvoice memProvider ''in_1'' (prov deletedUpstreamWorld) =
     (Inr None, prov deletedUpstreamWorld)"
    by (simp add: deletedUpstreamWorld_def memProvider_def customerFor_def emptyMem_def
        emptySettings_def emptyStorage_def mkWorld_def sampleBillingData_def sampleUser_def
        provInvoice_def savedInvoice_def withPriorId_def priorDownloadable_def resolveUser_def
        withUser_def getUserByBillingID_def getInvoiceByBillingInvoiceID_def saveInvoice_def)
  have l1: "getInvoiceByBillingInvoiceID (store deletedUpstreamWorld) ''in_1'' = Some savedInvoice"
    by (simp add: deletedUpstreamWorld_def memProvider_def customerFor_def emptyMem_def
        emptySettings_def emptyStorage_def mkWorld_def sampleBillingData_def sampleUser_def
        provInvoice_def savedInvoice_def withPriorId_def priorDownloadable_def resolveUser_def
        withUser_def getUserByBillingID_def getInvoiceByBillingInvoiceID_def saveInvoice_def)
  have g2: "getInvoice memProvider ''in_gone'' (prov deletedUpstreamWorld) =
     (Inr None, prov deletedUpstreamWorld)"
    by (simp add: deletedUpstreamWorld_def memProvider_def customerFor_def emptyMem_def
        emptySettings_def emptyStorage_def mkWorld_def sampleBillingData_def sampleUser_def
        provInvoice_def savedInvoice_def withPriorId_def priorDownloadable_def resolveUser_def
        withUser_def getUserByBillingID_def getInvoiceByBillingInvoiceID_def saveInvoice_def)
  have l2: "getInvoiceByBillingInvoiceID (store deletedUpstreamWorld) ''in_gone'' = None"
    by (simp add: deletedUpstreamWorld_def memProvider_def customerFor_def emptyMem_def
        emptySettings_def emptyStorage_def mkWorld_def sampleBillingData_def sampleUser_def
        provInvoice_def savedInvoice_def withPriorId_def priorDownloadable_def resolveUser_def
        withUser_def getUserByBillingID_def getInvoiceByBillingInvoiceID_def saveInvoice_def)
  have c: "calls deletedUpstreamWorld = []" by (simp add: deletedUpstreamWorld_def mkWorld_def)
  have t: "fst (synchronizeInvoices memProvider None deletedUpstreamWorld) =
     Inr \<lparr>inSuccess = 1, inError = 0\<rparr>"
    by (simp add: deletedUpstreamWorld_def memProvider_def customerFor_def emptyMem_def
        emptySettings_def emptyStorage_def mkWorld_def sampleBillingData_def sampleUser_def
        provInvoice_def savedInvoice_def call_def newDate_def countSuccess_def countError_def
        logThrown_def checkAndGetBillingUser_def downloadNeeded_def downloadStep_def
        stampUserInvoices_def withPriorId_def priorDownloadable_def resolveUser_def withUser_def
        upsertInvoice_def tryInvoice_def stampInvoicesLastSynchronizedOn_def sweepInvoices_def
        synchronizeInvoices_def Let_def getUserByBillingID_def saveUserBillingData_def
        getInvoiceByBillingInvoiceID_def deleteInvoiceByInvoiceID_def saveInvoice_def
        saveInvoiceDocument_def getBillingSettings_def saveBillingSettings_def)
  have e: "st_invoices (store (snd (synchronizeInvoices memProvider None deletedUpstreamWorld))) = []"
    by (simp add: deletedUpstreamWorld_def memProvider_def customerFor_def emptyMem_def
        emptySettings_def emptyStorage_def mkWorld_def sampleBillingData_def sampleUser_def
        provInvoice_def savedInvoice_def call_def newDate_def countSuccess_def countError_def
        logThrown_def checkAndGetBillingUser_def downloadNeeded_def downloadStep_def
        stampUserInvoices_def withPriorId_def priorDownloadable_def resolveUser_def withUser_def
        upsertInvoice_def tryInvoice_def stampInvoicesLastSynchronizedOn_def sweepInvoices_def
        synchronizeInvoices_def Let_def getUserByBillingID_def saveUserBillingData_def
        getInvoiceByBillingInvoiceID_def deleteInvoiceByInvoiceID_def saveInvoice_def
        saveInvoiceDocument_def getBillingSettings_def saveBillingSettings_def)
  have a: "syncInvoices memProvider None [''in_1''] \<lparr>inSuccess = 0, inError = 0\<rparr>
             deletedUpstreamWorld =
     (Inr \<lparr>inSuccess = 1, inError = 0\<rparr>, None,
      deletedUpstreamWorld
        \<lparr>calls := [EvGetInvoice ''in_1''],
         store := deleteInvoiceByInvoiceID (store deletedUpstreamWorld) ''in_1''\<rparr>) \<and>
     getInvoiceByBillingInvoiceID
       (deleteInvoiceByInvoiceID (store deletedUpstreamWorld) ''in_1'') ''in_1'' = None"
    using syncInvoices_provider_absent [OF g1, of None "\<lparr>inSuccess = 0, inError = 0\<rparr>"] l1 c
    by simp
  have b: "syncInvoices memProvider None [''in_gone''] \<lparr>inSuccess = 0, inError = 0\<rparr>
     deletedUpstreamWorld =
     (Inr \<lparr>inSuccess = 0, inError = 1\<rparr>, None,
      deletedUpstreamWorld\<lparr>calls := [EvGetInvoice ''in_gone'']\<rparr>)"
    using syncInvoices_provider_absent [OF g2, of None "\<lparr>inSuccess = 0, inError = 0\<rparr>"] l2 c
    by simp
  show ?thesis using g1 l1 a t e g2 l2 b by blast
qed

lemma downloadStep_run:
  assumes d: "downloadInvoiceDocument P b (prov w) = (rd, p2)"
  shows "downloadStep P prior b w =
     (if downloadNeeded prior b then
        ((case rd of Inl e \<Rightarrow> Inl e | Inr x \<Rightarrow> Inr ()),
         w\<lparr>prov := p2, calls := calls w @ [EvDownloadInvoiceDocument b rd],
           store := (case rd of
                       Inr (Some doc) \<Rightarrow>
                         snd (saveInvoice (saveInvoiceDocument (store w) doc)
                                (b\<lparr>inv_downloadable := True\<rparr>))
                     | _ \<Rightarrow> store w)\<rparr>)
      else (Inr (), w))"
  using d
  by (auto simp: downloadStep_def call_def Let_def split: sum.splits option.splits prod.splits)

lemma stampUserInvoices_keeps:
  "stampUserInvoices u w = (r, w') \<Longrightarrow>
   st_invoices (store w') = st_invoices (store w) \<and>
   st_documents (store w') = st_documents (store w) \<and>
   calls w' = calls w \<and> prov w' = prov w \<and>
   (u_billingData u \<noteq> None \<longrightarrow> (\<exists>u1. r = Inr u1))"
  by (auto simp: stampUserInvoices_def newDate_def saveUserBillingData_def Let_def
      split: option.splits)

lemma saveInvoice_documents:
  "saveInvoice st b = (k, st') \<Longrightarrow> st_documents st' = st_documents st"
  by (auto simp: saveInvoice_def split: option.splits if_splits)

lemma saveInvoice_member:
  assumes "saveInvoice st b = (k, st')"
  shows "b\<lparr>inv_id := Some k\<rparr> \<in> set (st_invoices st')"
proof (cases "inv_id b")
  case None
  then show ?thesis using assms by (auto simp: saveInvoice_def)
next
  case (Some j)
  then have b: "b\<lparr>inv_id := Some j\<rparr> = b" by simp
  show ?thesis
  proof (cases "list_ex (\<lambda>i. inv_id i = Some j) (st_invoices st)")
    case True
    then obtain x where "x \<in> set (st_invoices st)" "inv_id x = Some j"
      by (auto simp: list_ex_iff)
    then have "b \<in> set (map (\<lambda>i. if inv_id i = Some j then b else i) (st_invoices st))"
      by (auto simp: image_iff)
    then show ?thesis using assms Some True b by (auto simp: saveInvoice_def)
  next
    case False
    then show ?thesis using assms Some b by (auto simp: saveInvoice_def)
  qed
qed

lemma tryInvoice_upsert:
  assumes g: "getInvoice P iid (prov w) = (Inr (Some b0), p1)"
    and prior: "prior = getInvoiceByBillingInvoiceID (store w) iid"
    and u: "resolveUser usr (store w) (withPriorId prior b0) = Some ui"
  shows "tryInvoice P usr iid w =
           upsertInvoice P usr prior (withPriorId prior b0) ui
             (w\<lparr>prov := p1, calls := calls w @ [EvGetInvoice iid]\<rparr>)"
  using g u prior by (simp add: tryInvoice_def call_def Let_def)

lemma upsertInvoice_run:
  assumes s: "saveInvoice (store w) (withUser prior ui b1) = (k, st2)"
    and b3: "b3 = (withUser prior ui b1)\<lparr>inv_id := Some k\<rparr>"
    and d: "downloadInvoiceDocument P b3 (prov w) = (rd, p2)"
    and run: "upsertInvoice P usr prior b1 ui w = (r, usr', w')"
  shows "calls w' = calls w @
           (if downloadNeeded prior b3 then [EvDownloadInvoiceDocument b3 rd] else [])"
    and "prov w' = (if downloadNeeded prior b3 then p2 else prov w)"
    and "downloadNeeded prior b3 \<Longrightarrow> rd = Inl e \<Longrightarrow>
         r = Inl e \<and> usr' = usr \<and> store w' = st2 \<and> clock w' = clock w"
    and "downloadNeeded prior b3 \<Longrightarrow> rd = Inr None \<Longrightarrow> u_billingData ui \<noteq> None \<Longrightarrow>
         r = Inr True \<and> st_invoices (store w') = st_invoices st2"
    and "downloadNeeded prior b3 \<Longrightarrow> rd = Inr (Some doc) \<Longrightarrow>
         doc \<in> set (st_documents (store w')) \<and>
         b3\<lparr>inv_downloadable := True\<rparr> \<in> set (st_invoices (store w'))"
    and "\<not> downloadNeeded prior b3 \<Longrightarrow> st_documents (store w') = st_documents (store w)"
proof -
  have d': "downloadInvoiceDocument P b3 (prov (w\<lparr>store := st2\<rparr>)) = (rd, p2)"
    using d by simp
  note ds = downloadStep_run [OF d', of prior]
  obtain r3 w3 where r3: "downloadStep P prior b3 (w\<lparr>store := st2\<rparr>) = (r3, w3)"
    by (cases "downloadStep P prior b3 (w\<lparr>store := st2\<rparr>)")
  obtain r4 w4 where r4: "stampUserInvoices ui w3 = (r4, w4)"
    by (cases "stampUserInvoices ui w3")
  note st = stampUserInvoices_keeps [OF r4]
  have c3: "calls w3 = calls w @
           (if downloadNeeded prior b3 then [EvDownloadInvoiceDocument b3 rd] else [])"
       and p3: "prov w3 = (if downloadNeeded prior b3 then p2 else prov w)"
    using ds r3 by (auto split: if_splits)
  have w': "w' = (case r3 of Inl e \<Rightarrow> w3 | Inr x \<Rightarrow> w4)"
       and r: "r = (case r3 of Inl e \<Rightarrow> Inl e
                    | Inr x \<Rightarrow> (case r4 of Inl e \<Rightarrow> Inl e | Inr y \<Rightarrow> Inr True))"
       and us: "(\<exists>e. r3 = Inl e) \<longrightarrow> usr' = usr"
    using run s b3 r3 r4 by (auto simp: upsertInvoice_def Let_def split: sum.splits)
  show "calls w' = calls w @
           (if downloadNeeded prior b3 then [EvDownloadInvoiceDocument b3 rd] else [])"
    using w' c3 st by (cases r3) simp_all
  show "prov w' = (if downloadNeeded prior b3 then p2 else prov w)"
    using w' p3 st by (cases r3) simp_all
  show "r = Inl e \<and> usr' = usr \<and> store w' = st2 \<and> clock w' = clock w" if "downloadNeeded prior b3" "rd = Inl e"
    using that ds r3 w' r us by auto
  show "r = Inr True \<and> st_invoices (store w') = st_invoices st2"
    if "downloadNeeded prior b3" "rd = Inr None" "u_billingData ui \<noteq> None"
    using that ds r3 w' r st by auto
  show "doc \<in> set (st_documents (store w')) \<and>
        b3\<lparr>inv_downloadable := True\<rparr> \<in> set (st_invoices (store w'))"
    if n: "downloadNeeded prior b3" and rd: "rd = Inr (Some doc)"
  proof -
    let ?b = "b3\<lparr>inv_downloadable := True\<rparr>"
    obtain j st3 where s3: "saveInvoice (saveInvoiceDocument st2 doc) ?b = (j, st3)"
      by (cases "saveInvoice (saveInvoiceDocument st2 doc) ?b")
    have j: "j = k" using s3 b3 by (auto simp: saveInvoice_def split: if_splits)
    have w3: "store w3 = st3" and "r3 = Inr ()" using ds r3 n rd s3 by auto
    then have e: "st_invoices (store w') = st_invoices st3"
                 "st_documents (store w') = st_documents st3"
      using w' st by simp_all
    have "?b\<lparr>inv_id := Some j\<rparr> = ?b" using j b3 by simp
    then have 1: "?b \<in> set (st_invoices st3)" using saveInvoice_member [OF s3] by simp
    have "doc \<in> set (st_documents (saveInvoiceDocument st2 doc))"
      by (simp add: saveInvoiceDocument_def)
    then have 2: "doc \<in> set (st_documents st3)" using saveInvoice_documents [OF s3] by simp
    show ?thesis using 1 2 e by simp
  qed
  show "st_documents (store w') = st_documents (store w)" if "\<not> downloadNeeded prior b3"
  proof -
    have "w3 = w\<lparr>store := st2\<rparr>" "r3 = Inr ()" using ds r3 that by auto
    then have "st_documents (store w') = st_documents st2" using w' st by simp
    then show ?thesis using saveInvoice_documents [OF s] by simp
  qed
qed

lemma downloadNeeded_saved:
  "downloadNeeded prior ((withUser prior ui (withPriorId prior b0))\<lparr>inv_id := Some k\<rparr>) =
     (case prior of None \<Rightarrow> True
      | Some p \<Rightarrow> \<not> inv_downloadable p \<or> inv_nbrOfItems p \<noteq> inv_nbrOfItems b0)"
  by (auto simp: downloadNeeded_def withUser_def withPriorId_def priorDownloadable_def
      split: option.splits)

text \<open>
  C3. An invoice that the provider returns and whose user is found is saved, and then the
  provider is asked for the document of the saved invoice exactly when there was no local
  record, or the local record was not downloadable, or its number of items is not the
  provider's. In these cases the calls of the item are \<^verbatim>\<open>getInvoice\<close> and one
  \<^verbatim>\<open>downloadInvoiceDocument\<close>, with the provider's answer, the provider is left in the
  state the download left it in, and a document that came back is stored, with the invoice
  saved as downloadable. In every other case the only call is \<^verbatim>\<open>getInvoice\<close>, the
  provider is left in the state that call left it in, and no document is stored.
\<close>

theorem tryInvoice_download_policy:
  assumes g: "getInvoice P iid (prov w) = (Inr (Some b0), p1)"
    and prior: "prior = getInvoiceByBillingInvoiceID (store w) iid"
    and u: "resolveUser usr (store w) (withPriorId prior b0) = Some ui"
    and s: "saveInvoice (store w) (withUser prior ui (withPriorId prior b0)) = (k, st2)"
    and b3: "b3 = (withUser prior ui (withPriorId prior b0))\<lparr>inv_id := Some k\<rparr>"
    and d: "downloadInvoiceDocument P b3 p1 = (rd, p2)"
    and run: "tryInvoice P usr iid w = (r, usr', w')"
  shows "if (case prior of None \<Rightarrow> True
             | Some x \<Rightarrow> \<not> inv_downloadable x \<or> inv_nbrOfItems x \<noteq> inv_nbrOfItems b0)
         then calls w' = calls w @ [EvGetInvoice iid, EvDownloadInvoiceDocument b3 rd] \<and>
              prov w' = p2 \<and>
              (\<forall>doc. rd = Inr (Some doc) \<longrightarrow>
                 doc \<in> set (st_documents (store w')) \<and>
                 b3\<lparr>inv_downloadable := True\<rparr> \<in> set (st_invoices (store w')))
         else calls w' = calls w @ [EvGetInvoice iid] \<and> prov w' = p1 \<and>
              st_documents (store w') = st_documents (store w)"
proof -
  let ?w1 = "w\<lparr>prov := p1, calls := calls w @ [EvGetInvoice iid]\<rparr>"
  have s1: "saveInvoice (store ?w1) (withUser prior ui (withPriorId prior b0)) = (k, st2)"
    using s by simp
  have d1: "downloadInvoiceDocument P b3 (prov ?w1) = (rd, p2)" using d by simp
  have up: "upsertInvoice P usr prior (withPriorId prior b0) ui ?w1 = (r, usr', w')"
    using tryInvoice_upsert [OF g prior u] run by simp
  note f = upsertInvoice_run [OF s1 b3 d1 up]
  have n: "downloadNeeded prior b3 =
             (case prior of None \<Rightarrow> True
              | Some x \<Rightarrow> \<not> inv_downloadable x \<or> inv_nbrOfItems x \<noteq> inv_nbrOfItems b0)"
    unfolding b3 by (rule downloadNeeded_saved)
  show ?thesis
  proof (cases "downloadNeeded prior b3")
    case True
    then show ?thesis using f(1,2) f(5) [OF True] n by simp
  next
    case False
    then show ?thesis using f(1,2) f(6) [OF False] n by simp
  qed
qed

theorem tryInvoice_download_policy_witness:
  "getInvoice memProvider ''in_1'' (prov syncedWorld) =
     (Inr (Some (provInvoice ''in_1'' 3)), prov syncedWorld) \<and>
   getInvoiceByBillingInvoiceID (store syncedWorld) ''in_1'' =
     Some (savedInvoice\<lparr>inv_downloadable := True\<rparr>) \<and>
   calls (snd (snd (tryInvoice memProvider None ''in_1'' syncedWorld))) = [EvGetInvoice ''in_1''] \<and>
   prov (snd (snd (tryInvoice memProvider None ''in_1'' syncedWorld))) = prov syncedWorld \<and>
   st_documents (store (snd (snd (tryInvoice memProvider None ''in_1'' syncedWorld)))) = [] \<and>
   getInvoice memProvider ''in_1'' (prov invoiceWorld) =
     (Inr (Some (provInvoice ''in_1'' 3)), prov invoiceWorld) \<and>
   getInvoiceByBillingInvoiceID (store invoiceWorld) ''in_1'' = None \<and>
   downloadInvoiceDocument memProvider savedInvoice (prov invoiceWorld) =
     (Inr (Some \<lparr>doc_invoiceID = Some 0, doc_content = ''pdf''\<rparr>), prov invoiceWorld) \<and>
   calls (snd (snd (tryInvoice memProvider None ''in_1'' invoiceWorld))) =
     [EvGetInvoice ''in_1'',
      EvDownloadInvoiceDocument savedInvoice
        (Inr (Some \<lparr>doc_invoiceID = Some 0, doc_content = ''pdf''\<rparr>))] \<and>
   prov (snd (snd (tryInvoice memProvider None ''in_1'' invoiceWorld))) = prov invoiceWorld \<and>
   \<lparr>doc_invoiceID = Some 0, doc_content = ''pdf''\<rparr> \<in>
     set (st_documents (store (snd (snd (tryInvoice memProvider None ''in_1'' invoiceWorld))))) \<and>
   savedInvoice\<lparr>inv_downloadable := True\<rparr> \<in>
     set (st_invoices (store (snd (snd (tryInvoice memProvider None ''in_1'' invoiceWorld)))))"
proof -
  let ?s = "Some (savedInvoice\<lparr>inv_downloadable := True\<rparr>)"
  let ?b = "provInvoice ''in_1'' 3"
  have g1: "getInvoice memProvider ''in_1'' (prov syncedWorld) = (Inr (Some ?b), prov syncedWorld)"
    by (simp add: syncedWorld_def memProvider_def customerFor_def emptyMem_def emptySettings_def
        emptyStorage_def mkWorld_def sampleBillingData_def sampleUser_def provInvoice_def
        savedInvoice_def withPriorId_def priorDownloadable_def resolveUser_def withUser_def
        getUserByBillingID_def getInvoiceByBillingInvoiceID_def saveInvoice_def)
  have p1: "?s = getInvoiceByBillingInvoiceID (store syncedWorld) ''in_1''"
    by (simp add: syncedWorld_def memProvider_def customerFor_def emptyMem_def emptySettings_def
        emptyStorage_def mkWorld_def sampleBillingData_def sampleUser_def provInvoice_def
        savedInvoice_def withPriorId_def priorDownloadable_def resolveUser_def withUser_def
        getUserByBillingID_def getInvoiceByBillingInvoiceID_def saveInvoice_def)
  have u1: "resolveUser None (store syncedWorld) (withPriorId ?s ?b) = Some sampleUser"
    by (simp add: syncedWorld_def memProvider_def customerFor_def emptyMem_def emptySettings_def
        emptyStorage_def mkWorld_def sampleBillingData_def sampleUser_def provInvoice_def
        savedInvoice_def withPriorId_def priorDownloadable_def resolveUser_def withUser_def
        getUserByBillingID_def getInvoiceByBillingInvoiceID_def saveInvoice_def)
  have s1: "saveInvoice (store syncedWorld) (withUser ?s sampleUser (withPriorId ?s ?b)) =
     (0, snd (saveInvoice (store syncedWorld) (withUser ?s sampleUser (withPriorId ?s ?b))))"
    by (simp add: syncedWorld_def memProvider_def customerFor_def emptyMem_def emptySettings_def
        emptyStorage_def mkWorld_def sampleBillingData_def sampleUser_def provInvoice_def
        savedInvoice_def withPriorId_def priorDownloadable_def resolveUser_def withUser_def
        getUserByBillingID_def getInvoiceByBillingInvoiceID_def saveInvoice_def)
  have d1: "downloadInvoiceDocument memProvider
              ((withUser ?s sampleUser (withPriorId ?s ?b))\<lparr>inv_id := Some 0\<rparr>)
              (prov syncedWorld) =
            (fst (downloadInvoiceDocument memProvider
              ((withUser ?s sampleUser (withPriorId ?s ?b))\<lparr>inv_id := Some 0\<rparr>)
              (prov syncedWorld)),
             snd (downloadInvoiceDocument memProvider
              ((withUser ?s sampleUser (withPriorId ?s ?b))\<lparr>inv_id := Some 0\<rparr>)
              (prov syncedWorld)))"
    by simp
  have c1: "calls syncedWorld = []" "st_documents (store syncedWorld) = []"
    by (simp_all add: syncedWorld_def mkWorld_def emptyStorage_def)
  have r1: "tryInvoice memProvider None ''in_1'' syncedWorld =
     (fst (tryInvoice memProvider None ''in_1'' syncedWorld),
      fst (snd (tryInvoice memProvider None ''in_1'' syncedWorld)),
      snd (snd (tryInvoice memProvider None ''in_1'' syncedWorld)))"
    by simp
  have a: "calls (snd (snd (tryInvoice memProvider None ''in_1'' syncedWorld))) =
             [EvGetInvoice ''in_1''] \<and>
           prov (snd (snd (tryInvoice memProvider None ''in_1'' syncedWorld))) =
             prov syncedWorld \<and>
           st_documents (store (snd (snd (tryInvoice memProvider None ''in_1'' syncedWorld)))) = []"
    using tryInvoice_download_policy [OF g1 p1 u1 s1 refl d1 r1] c1
    by (simp add: savedInvoice_def provInvoice_def)
  have g2: "getInvoice memProvider ''in_1'' (prov invoiceWorld) = (Inr (Some ?b), prov invoiceWorld)"
    by (simp add: invoiceWorld_def memProvider_def customerFor_def emptyMem_def
        emptySettings_def emptyStorage_def mkWorld_def sampleBillingData_def sampleUser_def
        provInvoice_def savedInvoice_def withPriorId_def priorDownloadable_def resolveUser_def
        withUser_def getUserByBillingID_def getInvoiceByBillingInvoiceID_def saveInvoice_def)
  have p2: "None = getInvoiceByBillingInvoiceID (store invoiceWorld) ''in_1''"
    by (simp add: invoiceWorld_def memProvider_def customerFor_def emptyMem_def
        emptySettings_def emptyStorage_def mkWorld_def sampleBillingData_def sampleUser_def
        provInvoice_def savedInvoice_def withPriorId_def priorDownloadable_def resolveUser_def
        withUser_def getUserByBillingID_def getInvoiceByBillingInvoiceID_def saveInvoice_def)
  have u2: "resolveUser None (store invoiceWorld) (withPriorId None ?b) = Some sampleUser"
    by (simp add: invoiceWorld_def memProvider_def customerFor_def emptyMem_def
        emptySettings_def emptyStorage_def mkWorld_def sampleBillingData_def sampleUser_def
        provInvoice_def savedInvoice_def withPriorId_def priorDownloadable_def resolveUser_def
        withUser_def getUserByBillingID_def getInvoiceByBillingInvoiceID_def saveInvoice_def)
  have s2: "saveInvoice (store invoiceWorld) (withUser None sampleUser (withPriorId None ?b)) =
     (0, snd (saveInvoice (store invoiceWorld) (withUser None sampleUser (withPriorId None ?b))))"
    by (simp add: invoiceWorld_def memProvider_def customerFor_def emptyMem_def
        emptySettings_def emptyStorage_def mkWorld_def sampleBillingData_def sampleUser_def
        provInvoice_def savedInvoice_def withPriorId_def priorDownloadable_def resolveUser_def
        withUser_def getUserByBillingID_def getInvoiceByBillingInvoiceID_def saveInvoice_def)
  have b2: "savedInvoice = (withUser None sampleUser (withPriorId None ?b))\<lparr>inv_id := Some 0\<rparr>"
    by (simp add: memProvider_def customerFor_def emptyMem_def emptySettings_def
        emptyStorage_def mkWorld_def sampleBillingData_def sampleUser_def provInvoice_def
        savedInvoice_def withPriorId_def priorDownloadable_def resolveUser_def withUser_def
        getUserByBillingID_def getInvoiceByBillingInvoiceID_def saveInvoice_def)
  have d2: "downloadInvoiceDocument memProvider savedInvoice (prov invoiceWorld) =
     (Inr (Some \<lparr>doc_invoiceID = Some 0, doc_content = ''pdf''\<rparr>), prov invoiceWorld)"
    by (simp add: invoiceWorld_def memProvider_def customerFor_def emptyMem_def
        emptySettings_def emptyStorage_def mkWorld_def sampleBillingData_def sampleUser_def
        provInvoice_def savedInvoice_def withPriorId_def priorDownloadable_def resolveUser_def
        withUser_def getUserByBillingID_def getInvoiceByBillingInvoiceID_def saveInvoice_def)
  have c2: "calls invoiceWorld = []" by (simp add: invoiceWorld_def mkWorld_def)
  have r2: "tryInvoice memProvider None ''in_1'' invoiceWorld =
     (fst (tryInvoice memProvider None ''in_1'' invoiceWorld),
      fst (snd (tryInvoice memProvider None ''in_1'' invoiceWorld)),
      snd (snd (tryInvoice memProvider None ''in_1'' invoiceWorld)))"
    by simp
  have b: "calls (snd (snd (tryInvoice memProvider None ''in_1'' invoiceWorld))) =
     [EvGetInvoice ''in_1'',
      EvDownloadInvoiceDocument savedInvoice
        (Inr (Some \<lparr>doc_invoiceID = Some 0, doc_content = ''pdf''\<rparr>))] \<and>
   prov (snd (snd (tryInvoice memProvider None ''in_1'' invoiceWorld))) = prov invoiceWorld \<and>
   \<lparr>doc_invoiceID = Some 0, doc_content = ''pdf''\<rparr> \<in>
     set (st_documents (store (snd (snd (tryInvoice memProvider None ''in_1'' invoiceWorld))))) \<and>
   savedInvoice\<lparr>inv_downloadable := True\<rparr> \<in>
     set (st_invoices (store (snd (snd (tryInvoice memProvider None ''in_1'' invoiceWorld)))))"
    using tryInvoice_download_policy [OF g2 p2 u2 s2 b2 d2 r2] c2 by simp
  show ?thesis using g1 p1 [symmetric] a g2 p2 [symmetric] d2 b by blast
qed

lemma find_append_cases:
  "find P (xs @ ys) = (case find P xs of None \<Rightarrow> find P ys | Some x \<Rightarrow> Some x)"
  by (induction xs) simp_all

lemma find_map_replace:
  "P b \<Longrightarrow> find P (map (\<lambda>i. if Q i then b else i) xs) = Some s \<Longrightarrow>
   s = b \<or> find P xs = Some s"
  by (induction xs) (auto split: if_splits)

lemma find_map_replace_ex:
  "P b \<Longrightarrow> list_ex Q xs \<Longrightarrow> find P (map (\<lambda>i. if Q i then b else i) xs) \<noteq> None"
  by (auto simp: find_None_iff list_ex_iff)

lemma saveInvoice_lookup:
  assumes id: "inv_invoiceID b = iid" and s: "saveInvoice st b = (k, st')"
  shows "\<exists>x. getInvoiceByBillingInvoiceID st' iid = Some x \<and>
           (x = b\<lparr>inv_id := Some k\<rparr> \<or> getInvoiceByBillingInvoiceID st iid = Some x)"
proof (cases "inv_id b")
  case None
  then have "st_invoices st' = st_invoices st @ [b\<lparr>inv_id := Some k\<rparr>]"
    using s by (auto simp: saveInvoice_def)
  then show ?thesis using id
    by (auto simp: getInvoiceByBillingInvoiceID_def find_append_cases split: option.splits)
next
  case (Some j)
  have kj: "k = j" using s Some by (auto simp: saveInvoice_def split: if_splits)
  then have bk: "b\<lparr>inv_id := Some k\<rparr> = b" using Some by simp
  show ?thesis
  proof (cases "list_ex (\<lambda>i. inv_id i = Some j) (st_invoices st)")
    case True
    then have inv: "st_invoices st' = map (\<lambda>i. if inv_id i = Some j then b else i) (st_invoices st)"
      using s Some by (auto simp: saveInvoice_def)
    have "find (\<lambda>i. inv_invoiceID i = iid) (st_invoices st') \<noteq> None"
      unfolding inv using id True by (intro find_map_replace_ex) simp_all
    then obtain x where x: "find (\<lambda>i. inv_invoiceID i = iid) (st_invoices st') = Some x" by auto
    have "x = b \<or> find (\<lambda>i. inv_invoiceID i = iid) (st_invoices st) = Some x"
    proof (rule find_map_replace [where P = "\<lambda>i. inv_invoiceID i = iid"
          and Q = "\<lambda>i. inv_id i = Some j"])
      show "inv_invoiceID b = iid" by (rule id)
      show "find (\<lambda>i. inv_invoiceID i = iid)
              (map (\<lambda>i. if inv_id i = Some j then b else i) (st_invoices st)) = Some x"
        using x unfolding inv .
    qed
    then show ?thesis using x bk by (auto simp: getInvoiceByBillingInvoiceID_def)
  next
    case False
    then have "st_invoices st' = st_invoices st @ [b]"
      using s Some by (auto simp: saveInvoice_def)
    then show ?thesis using id bk
      by (auto simp: getInvoiceByBillingInvoiceID_def find_append_cases split: option.splits)
  qed
qed

lemma saved_flag:
  assumes id: "inv_invoiceID b0 = iid"
    and prior: "prior = getInvoiceByBillingInvoiceID st iid"
    and s: "saveInvoice st (withUser prior ui (withPriorId prior b0)) = (k, st2)"
  shows "\<exists>x. getInvoiceByBillingInvoiceID st2 iid = Some x \<and>
           inv_downloadable x = (case prior of None \<Rightarrow> False | Some p \<Rightarrow> inv_downloadable p)"
proof -
  let ?b2 = "withUser prior ui (withPriorId prior b0)"
  have "inv_invoiceID ?b2 = iid"
    using id by (simp add: withUser_def withPriorId_def split: option.splits)
  from saveInvoice_lookup [OF this s] obtain x where
    x: "getInvoiceByBillingInvoiceID st2 iid = Some x"
       "x = ?b2\<lparr>inv_id := Some k\<rparr> \<or> getInvoiceByBillingInvoiceID st iid = Some x"
    by blast
  have "inv_downloadable x = (case prior of None \<Rightarrow> False | Some p \<Rightarrow> inv_downloadable p)"
    using x(2) prior by (auto simp: withUser_def priorDownloadable_def)
  then show ?thesis using x(1) by blast
qed

lemma lookup_invoices_cong:
  "st_invoices st = st_invoices st' \<Longrightarrow>
   getInvoiceByBillingInvoiceID st iid = getInvoiceByBillingInvoiceID st' iid"
  by (simp add: getInvoiceByBillingInvoiceID_def)

text \<open>
  The user that \<^verbatim>\<open>synchronizeInvoices\<close> hands to the steps of an item has billing data:
  the user found by the customer identifier of the invoice has it by the lookup, the user
  of a scoped call by the check of the billing user, and the stamp keeps it.
\<close>

lemma resolveUser_unscoped_billingData:
  "resolveUser None st b = Some ui \<Longrightarrow> u_billingData ui \<noteq> None"
proof -
  assume "resolveUser None st b = Some ui"
  then have "find (hasCustomerID (inv_customerID b)) (st_users st) = Some ui"
    by (simp add: resolveUser_def getUserByBillingID_def)
  then have "hasCustomerID (inv_customerID b) ui"
    by (auto simp: find_Some_iff)
  then show ?thesis by (auto split: option.splits)
qed

lemma checkAndGetBillingUser_billingData:
  "checkAndGetBillingUser P u w = (Inr bu, w1) \<Longrightarrow> u_billingData u \<noteq> None"
  by (cases "u_billingData u")
     (auto simp: checkAndGetBillingUser_def call_def
      split: prod.splits sum.splits option.splits if_splits)

lemma stampUserInvoices_billingData:
  "stampUserInvoices u w = (Inr u1, w') \<Longrightarrow> u_billingData u1 \<noteq> None"
  by (auto simp: stampUserInvoices_def newDate_def Let_def split: option.splits)

section \<open>An invoice without its document\<close>

lemma resolveUser_billingData:
  assumes "resolveUser usr st b = Some ui" and "\<forall>u0. usr = Some u0 \<longrightarrow> u_billingData u0 \<noteq> None"
  shows "u_billingData ui \<noteq> None"
proof (cases usr)
  case None
  then show ?thesis using assms(1) resolveUser_unscoped_billingData by blast
next
  case (Some u0)
  then show ?thesis using assms by (simp add: resolveUser_def)
qed

text \<open>
  C4, as the code has it. The provider returns the invoice, its user is found (a user the
  call is scoped to has billing data), and the download of the document is due. The saved
  record carries the downloadable flag of the prior local record, false when there was none.
  When the download returns no document the item counts as a success: the loop over this one
  identifier returns the tally with one more success, the provider is left in the state the
  download left it in, the saved record is among the invoices, and the tally of a longer run
  is this one plus the tally of the rest. When the download throws an error value the item
  counts as an error, and the world is the one after the save and the two calls.
\<close>

theorem tryInvoice_without_document:
  assumes g: "getInvoice P iid (prov w) = (Inr (Some b0), p1)"
    and prior: "prior = getInvoiceByBillingInvoiceID (store w) iid"
    and u: "resolveUser usr (store w) (withPriorId prior b0) = Some ui"
    and sb: "\<forall>u0. usr = Some u0 \<longrightarrow> u_billingData u0 \<noteq> None"
    and s: "saveInvoice (store w) (withUser prior ui (withPriorId prior b0)) = (k, st2)"
    and b3: "b3 = (withUser prior ui (withPriorId prior b0))\<lparr>inv_id := Some k\<rparr>"
    and need: "case prior of None \<Rightarrow> True
               | Some x \<Rightarrow> \<not> inv_downloadable x \<or> inv_nbrOfItems x \<noteq> inv_nbrOfItems b0"
    and d: "downloadInvoiceDocument P b3 p1 = (rd, p2)"
  shows "inv_downloadable b3 = (case prior of None \<Rightarrow> False | Some x \<Rightarrow> inv_downloadable x) \<and>
         (rd = Inr None \<longrightarrow>
            (\<exists>usr' w'.
               syncInvoices P usr [iid] a w =
                 (Inr \<lparr>inSuccess = Suc (inSuccess a), inError = inError a\<rparr>, usr', w') \<and>
               prov w' = p2 \<and>
               calls w' = calls w @ [EvGetInvoice iid, EvDownloadInvoiceDocument b3 rd] \<and>
               b3 \<in> set (st_invoices (store w')) \<and>
               (inv_invoiceID b0 = iid \<longrightarrow>
                  (\<exists>x. getInvoiceByBillingInvoiceID (store w') iid = Some x \<and>
                       inv_downloadable x = inv_downloadable b3)) \<and>
               (\<forall>post t u'' w''.
                  syncInvoices P usr' post \<lparr>inSuccess = 0, inError = 0\<rparr> w' = (Inr t, u'', w'') \<longrightarrow>
                  syncInvoices P usr (iid # post) a w =
                    (Inr (addActions \<lparr>inSuccess = Suc (inSuccess a), inError = inError a\<rparr> t),
                     u'', w'')))) \<and>
         (\<forall>e. rd = Inl e \<and> e \<noteq> Nullish \<longrightarrow>
            (\<exists>w'.
               syncInvoices P usr [iid] a w =
                 (Inr \<lparr>inSuccess = inSuccess a, inError = Suc (inError a)\<rparr>, usr, w') \<and>
               w' = w\<lparr>prov := p2,
                      calls := calls w @ [EvGetInvoice iid, EvDownloadInvoiceDocument b3 rd],
                      store := st2\<rparr> \<and>
               b3 \<in> set (st_invoices (store w')) \<and>
               (inv_invoiceID b0 = iid \<longrightarrow>
                  (\<exists>x. getInvoiceByBillingInvoiceID (store w') iid = Some x \<and>
                       inv_downloadable x = inv_downloadable b3)) \<and>
               (\<forall>post t u'' w''.
                  syncInvoices P usr post \<lparr>inSuccess = 0, inError = 0\<rparr> w' = (Inr t, u'', w'') \<longrightarrow>
                  syncInvoices P usr (iid # post) a w =
                    (Inr (addActions \<lparr>inSuccess = inSuccess a, inError = Suc (inError a)\<rparr> t),
                     u'', w''))))"
proof -
  let ?w1 = "w\<lparr>prov := p1, calls := calls w @ [EvGetInvoice iid]\<rparr>"
  let ?flag = "case prior of None \<Rightarrow> False | Some x \<Rightarrow> inv_downloadable x"
  obtain r usr' w' where run: "tryInvoice P usr iid w = (r, usr', w')"
    by (cases "tryInvoice P usr iid w") auto
  have s1: "saveInvoice (store ?w1) (withUser prior ui (withPriorId prior b0)) = (k, st2)"
    using s by simp
  have d1: "downloadInvoiceDocument P b3 (prov ?w1) = (rd, p2)" using d by simp
  have up: "upsertInvoice P usr prior (withPriorId prior b0) ui ?w1 = (r, usr', w')"
    using tryInvoice_upsert [OF g prior u] run by simp
  note f = upsertInvoice_run [OF s1 b3 d1 up]
  have n: "downloadNeeded prior b3" unfolding b3 downloadNeeded_saved using need .
  have bd: "u_billingData ui \<noteq> None" using resolveUser_billingData [OF u sb] .
  have flag: "inv_downloadable b3 = ?flag"
    by (simp add: b3 withUser_def priorDownloadable_def)
  have mem: "b3 \<in> set (st_invoices st2)" using saveInvoice_member [OF s] b3 by simp
  have look: "\<exists>x. getInvoiceByBillingInvoiceID st2 iid = Some x \<and>
                  inv_downloadable x = inv_downloadable b3"
    if "inv_invoiceID b0 = iid"
    using saved_flag [OF that prior s] flag by simp
  have cl: "calls w' = calls w @ [EvGetInvoice iid, EvDownloadInvoiceDocument b3 rd]"
    and pr: "prov w' = p2"
    using f(1,2) n by simp_all
  have none: "\<exists>usr' w'.
               syncInvoices P usr [iid] a w =
                 (Inr \<lparr>inSuccess = Suc (inSuccess a), inError = inError a\<rparr>, usr', w') \<and>
               prov w' = p2 \<and>
               calls w' = calls w @ [EvGetInvoice iid, EvDownloadInvoiceDocument b3 rd] \<and>
               b3 \<in> set (st_invoices (store w')) \<and>
               (inv_invoiceID b0 = iid \<longrightarrow>
                  (\<exists>x. getInvoiceByBillingInvoiceID (store w') iid = Some x \<and>
                       inv_downloadable x = inv_downloadable b3)) \<and>
               (\<forall>post t u'' w''.
                  syncInvoices P usr' post \<lparr>inSuccess = 0, inError = 0\<rparr> w' = (Inr t, u'', w'') \<longrightarrow>
                  syncInvoices P usr (iid # post) a w =
                    (Inr (addActions \<lparr>inSuccess = Suc (inSuccess a), inError = inError a\<rparr> t),
                     u'', w''))"
    if rd: "rd = Inr None"
  proof -
    let ?a1 = "\<lparr>inSuccess = Suc (inSuccess a), inError = inError a\<rparr>"
    have r: "r = Inr True" and inv: "st_invoices (store w') = st_invoices st2"
      using f(4) [OF n rd bd] by simp_all
    have c: "r = Inr True \<and> ?a1 = countSuccess a \<or> r = Inr False \<and> ?a1 = countError a \<or>
            (\<exists>e. r = Inl e \<and> e \<noteq> Nullish) \<and> ?a1 = countError a"
      using r by (simp add: countSuccess_def)
    note it = syncInvoices_item [OF run c]
    have 1: "syncInvoices P usr [iid] a w = (Inr ?a1, usr', w')" using it(1) .
    have 2: "b3 \<in> set (st_invoices (store w'))" using mem inv by simp
    have 3: "inv_invoiceID b0 = iid \<longrightarrow>
                  (\<exists>x. getInvoiceByBillingInvoiceID (store w') iid = Some x \<and>
                       inv_downloadable x = inv_downloadable b3)"
      using look lookup_invoices_cong [OF inv, of iid] by auto
    have 4: "\<forall>post t u'' w''.
                  syncInvoices P usr' post \<lparr>inSuccess = 0, inError = 0\<rparr> w' = (Inr t, u'', w'') \<longrightarrow>
                  syncInvoices P usr (iid # post) a w = (Inr (addActions ?a1 t), u'', w'')"
      using it(2) by blast
    show ?thesis using 1 pr cl 2 3 4 by blast
  qed
  have thrown: "\<exists>w'.
               syncInvoices P usr [iid] a w =
                 (Inr \<lparr>inSuccess = inSuccess a, inError = Suc (inError a)\<rparr>, usr, w') \<and>
               w' = w\<lparr>prov := p2,
                      calls := calls w @ [EvGetInvoice iid, EvDownloadInvoiceDocument b3 rd],
                      store := st2\<rparr> \<and>
               b3 \<in> set (st_invoices (store w')) \<and>
               (inv_invoiceID b0 = iid \<longrightarrow>
                  (\<exists>x. getInvoiceByBillingInvoiceID (store w') iid = Some x \<and>
                       inv_downloadable x = inv_downloadable b3)) \<and>
               (\<forall>post t u'' w''.
                  syncInvoices P usr post \<lparr>inSuccess = 0, inError = 0\<rparr> w' = (Inr t, u'', w'') \<longrightarrow>
                  syncInvoices P usr (iid # post) a w =
                    (Inr (addActions \<lparr>inSuccess = inSuccess a, inError = Suc (inError a)\<rparr> t),
                     u'', w''))"
    if rd: "rd = Inl e \<and> e \<noteq> Nullish" for e
  proof -
    let ?a1 = "\<lparr>inSuccess = inSuccess a, inError = Suc (inError a)\<rparr>"
    have r: "r = Inl e" and us: "usr' = usr" and st: "store w' = st2"
      and clk: "clock w' = clock w"
      using f(3) [OF n, of e] rd by simp_all
    have c: "r = Inr True \<and> ?a1 = countSuccess a \<or> r = Inr False \<and> ?a1 = countError a \<or>
            (\<exists>e. r = Inl e \<and> e \<noteq> Nullish) \<and> ?a1 = countError a"
      using r rd by (simp add: countError_def)
    note it = syncInvoices_item [OF run c]
    have 1: "syncInvoices P usr [iid] a w = (Inr ?a1, usr, w')" using it(1) us by simp
    have 0: "w' = w\<lparr>prov := p2,
                      calls := calls w @ [EvGetInvoice iid, EvDownloadInvoiceDocument b3 rd],
                      store := st2\<rparr>"
      using pr cl st clk by simp
    have 2: "b3 \<in> set (st_invoices (store w'))" using mem st by simp
    have 3: "inv_invoiceID b0 = iid \<longrightarrow>
                  (\<exists>x. getInvoiceByBillingInvoiceID (store w') iid = Some x \<and>
                       inv_downloadable x = inv_downloadable b3)"
      using look st by auto
    have 4: "\<forall>post t u'' w''.
                  syncInvoices P usr post \<lparr>inSuccess = 0, inError = 0\<rparr> w' = (Inr t, u'', w'') \<longrightarrow>
                  syncInvoices P usr (iid # post) a w = (Inr (addActions ?a1 t), u'', w'')"
      using it(2) us by blast
    show ?thesis using 1 0 2 3 4 by blast
  qed
  show ?thesis using flag none thrown by blast
qed

theorem tryInvoice_without_document_witness:
  "getInvoice memProvider ''in_1'' (prov noDocumentWorld) =
     (Inr (Some (provInvoice ''in_1'' 3)), prov noDocumentWorld) \<and>
   downloadInvoiceDocument memProvider savedInvoice (prov noDocumentWorld) =
     (Inr None, prov noDocumentWorld) \<and>
   inv_downloadable savedInvoice = False \<and>
   fst (syncInvoices memProvider None [''in_1''] \<lparr>inSuccess = 0, inError = 0\<rparr> noDocumentWorld) =
     Inr \<lparr>inSuccess = 1, inError = 0\<rparr> \<and>
   prov (snd (snd (syncInvoices memProvider None [''in_1''] \<lparr>inSuccess = 0, inError = 0\<rparr>
                     noDocumentWorld))) = prov noDocumentWorld \<and>
   calls (snd (snd (syncInvoices memProvider None [''in_1''] \<lparr>inSuccess = 0, inError = 0\<rparr>
                      noDocumentWorld))) =
     [EvGetInvoice ''in_1'', EvDownloadInvoiceDocument savedInvoice (Inr None)] \<and>
   savedInvoice \<in>
     set (st_invoices (store (snd (snd (syncInvoices memProvider None [''in_1'']
                                          \<lparr>inSuccess = 0, inError = 0\<rparr> noDocumentWorld))))) \<and>
   (\<exists>x. getInvoiceByBillingInvoiceID
          (store (snd (snd (syncInvoices memProvider None [''in_1'']
                              \<lparr>inSuccess = 0, inError = 0\<rparr> noDocumentWorld)))) ''in_1'' =
        Some x \<and> inv_downloadable x = False) \<and>
   fst (synchronizeInvoices memProvider None noDocumentWorld) =
     Inr \<lparr>inSuccess = 1, inError = 0\<rparr> \<and>
   getInvoice memProvider ''in_1'' (prov downloadFailWorld) =
     (Inr (Some (provInvoice ''in_1'' 3)), prov downloadFailWorld) \<and>
   downloadInvoiceDocument memProvider savedInvoice (prov downloadFailWorld) =
     (Inl (ProviderError ''download failed''), prov downloadFailWorld) \<and>
   syncInvoices memProvider None [''in_1''] \<lparr>inSuccess = 0, inError = 0\<rparr> downloadFailWorld =
     (Inr \<lparr>inSuccess = 0, inError = 1\<rparr>, None,
      downloadFailWorld
        \<lparr>calls := [EvGetInvoice ''in_1'',
                   EvDownloadInvoiceDocument savedInvoice
                     (Inl (ProviderError ''download failed''))],
         store := (store downloadFailWorld)
                    \<lparr>st_invoices := [savedInvoice], st_nextInvoiceID := 1\<rparr>\<rparr>) \<and>
   getInvoiceByBillingInvoiceID
     ((store downloadFailWorld)\<lparr>st_invoices := [savedInvoice], st_nextInvoiceID := 1\<rparr>)
     ''in_1'' = Some savedInvoice"
proof -
  let ?b = "provInvoice ''in_1'' 3"
  let ?a = "\<lparr>inSuccess = 0, inError = 0\<rparr>"
  let ?N = "syncInvoices memProvider None [''in_1''] ?a noDocumentWorld"
  have idn: "inv_invoiceID ?b = ''in_1''" by (simp add: provInvoice_def)
  have sb: "\<forall>u0. (None :: user option) = Some u0 \<longrightarrow> u_billingData u0 \<noteq> None" by simp
  have b3: "savedInvoice = (withUser None sampleUser (withPriorId None ?b))\<lparr>inv_id := Some 0\<rparr>"
    by (simp add: memProvider_def customerFor_def emptyMem_def emptySettings_def
        emptyStorage_def mkWorld_def sampleBillingData_def sampleUser_def provInvoice_def
        savedInvoice_def withPriorId_def priorDownloadable_def resolveUser_def withUser_def
        getUserByBillingID_def getInvoiceByBillingInvoiceID_def saveInvoice_def)
  have fl: "inv_downloadable savedInvoice = False"
    by (simp add: savedInvoice_def provInvoice_def)
  have need: "case None :: invoice option of None \<Rightarrow> True
               | Some x \<Rightarrow> \<not> inv_downloadable x \<or> inv_nbrOfItems x \<noteq> inv_nbrOfItems ?b"
    by simp
  have g1: "getInvoice memProvider ''in_1'' (prov noDocumentWorld) =
     (Inr (Some ?b), prov noDocumentWorld)"
    by (simp add: noDocumentWorld_def memProvider_def customerFor_def emptyMem_def
        emptySettings_def emptyStorage_def mkWorld_def sampleBillingData_def sampleUser_def
        provInvoice_def savedInvoice_def withPriorId_def priorDownloadable_def resolveUser_def
        withUser_def getUserByBillingID_def getInvoiceByBillingInvoiceID_def saveInvoice_def)
  have p1: "None = getInvoiceByBillingInvoiceID (store noDocumentWorld) ''in_1''"
    by (simp add: noDocumentWorld_def memProvider_def customerFor_def emptyMem_def
        emptySettings_def emptyStorage_def mkWorld_def sampleBillingData_def sampleUser_def
        provInvoice_def savedInvoice_def withPriorId_def priorDownloadable_def resolveUser_def
        withUser_def getUserByBillingID_def getInvoiceByBillingInvoiceID_def saveInvoice_def)
  have u1: "resolveUser None (store noDocumentWorld) (withPriorId None ?b) = Some sampleUser"
    by (simp add: noDocumentWorld_def memProvider_def customerFor_def emptyMem_def
        emptySettings_def emptyStorage_def mkWorld_def sampleBillingData_def sampleUser_def
        provInvoice_def savedInvoice_def withPriorId_def priorDownloadable_def resolveUser_def
        withUser_def getUserByBillingID_def getInvoiceByBillingInvoiceID_def saveInvoice_def)
  have s1: "saveInvoice (store noDocumentWorld) (withUser None sampleUser (withPriorId None ?b)) =
     (0, (store noDocumentWorld)\<lparr>st_invoices := [savedInvoice], st_nextInvoiceID := 1\<rparr>)"
    by (simp add: noDocumentWorld_def memProvider_def customerFor_def emptyMem_def
        emptySettings_def emptyStorage_def mkWorld_def sampleBillingData_def sampleUser_def
        provInvoice_def savedInvoice_def withPriorId_def priorDownloadable_def resolveUser_def
        withUser_def getUserByBillingID_def getInvoiceByBillingInvoiceID_def saveInvoice_def)
  have d1: "downloadInvoiceDocument memProvider savedInvoice (prov noDocumentWorld) =
     (Inr None, prov noDocumentWorld)"
    by (simp add: noDocumentWorld_def memProvider_def customerFor_def emptyMem_def
        emptySettings_def emptyStorage_def mkWorld_def sampleBillingData_def sampleUser_def
        provInvoice_def savedInvoice_def withPriorId_def priorDownloadable_def resolveUser_def
        withUser_def getUserByBillingID_def getInvoiceByBillingInvoiceID_def saveInvoice_def)
  have c1: "calls noDocumentWorld = []" by (simp add: noDocumentWorld_def mkWorld_def)
  have x1: "fst ?N = Inr \<lparr>inSuccess = 1, inError = 0\<rparr> \<and>
            prov (snd (snd ?N)) = prov noDocumentWorld \<and>
            calls (snd (snd ?N)) =
              [EvGetInvoice ''in_1'', EvDownloadInvoiceDocument savedInvoice (Inr None)] \<and>
            savedInvoice \<in> set (st_invoices (store (snd (snd ?N)))) \<and>
            (\<exists>x. getInvoiceByBillingInvoiceID (store (snd (snd ?N))) ''in_1'' = Some x \<and>
                 inv_downloadable x = False)"
    using tryInvoice_without_document [OF g1 p1 u1 sb s1 b3 need d1, of ?a] c1 idn fl
    by auto
  have t1: "fst (synchronizeInvoices memProvider None noDocumentWorld) =
     Inr \<lparr>inSuccess = 1, inError = 0\<rparr>"
    by (simp add: noDocumentWorld_def memProvider_def customerFor_def emptyMem_def
        emptySettings_def emptyStorage_def mkWorld_def sampleBillingData_def sampleUser_def
        provInvoice_def savedInvoice_def call_def newDate_def countSuccess_def countError_def
        logThrown_def checkAndGetBillingUser_def downloadNeeded_def downloadStep_def
        stampUserInvoices_def withPriorId_def priorDownloadable_def resolveUser_def withUser_def
        upsertInvoice_def tryInvoice_def stampInvoicesLastSynchronizedOn_def sweepInvoices_def
        synchronizeInvoices_def Let_def getUserByBillingID_def saveUserBillingData_def
        getInvoiceByBillingInvoiceID_def deleteInvoiceByInvoiceID_def saveInvoice_def
        saveInvoiceDocument_def getBillingSettings_def saveBillingSettings_def)
  have g2: "getInvoice memProvider ''in_1'' (prov downloadFailWorld) =
     (Inr (Some ?b), prov downloadFailWorld)"
    by (simp add: downloadFailWorld_def memProvider_def customerFor_def emptyMem_def
        emptySettings_def emptyStorage_def mkWorld_def sampleBillingData_def sampleUser_def
        provInvoice_def savedInvoice_def withPriorId_def priorDownloadable_def resolveUser_def
        withUser_def getUserByBillingID_def getInvoiceByBillingInvoiceID_def saveInvoice_def)
  have p2: "None = getInvoiceByBillingInvoiceID (store downloadFailWorld) ''in_1''"
    by (simp add: downloadFailWorld_def memProvider_def customerFor_def emptyMem_def
        emptySettings_def emptyStorage_def mkWorld_def sampleBillingData_def sampleUser_def
        provInvoice_def savedInvoice_def withPriorId_def priorDownloadable_def resolveUser_def
        withUser_def getUserByBillingID_def getInvoiceByBillingInvoiceID_def saveInvoice_def)
  have u2: "resolveUser None (store downloadFailWorld) (withPriorId None ?b) = Some sampleUser"
    by (simp add: downloadFailWorld_def memProvider_def customerFor_def emptyMem_def
        emptySettings_def emptyStorage_def mkWorld_def sampleBillingData_def sampleUser_def
        provInvoice_def savedInvoice_def withPriorId_def priorDownloadable_def resolveUser_def
        withUser_def getUserByBillingID_def getInvoiceByBillingInvoiceID_def saveInvoice_def)
  have s2: "saveInvoice (store downloadFailWorld) (withUser None sampleUser (withPriorId None ?b)) =
     (0, (store downloadFailWorld)\<lparr>st_invoices := [savedInvoice], st_nextInvoiceID := 1\<rparr>)"
    by (simp add: downloadFailWorld_def memProvider_def customerFor_def emptyMem_def
        emptySettings_def emptyStorage_def mkWorld_def sampleBillingData_def sampleUser_def
        provInvoice_def savedInvoice_def withPriorId_def priorDownloadable_def resolveUser_def
        withUser_def getUserByBillingID_def getInvoiceByBillingInvoiceID_def saveInvoice_def)
  have d2: "downloadInvoiceDocument memProvider savedInvoice (prov downloadFailWorld) =
     (Inl (ProviderError ''download failed''), prov downloadFailWorld)"
    by (simp add: downloadFailWorld_def memProvider_def customerFor_def emptyMem_def
        emptySettings_def emptyStorage_def mkWorld_def sampleBillingData_def sampleUser_def
        provInvoice_def savedInvoice_def withPriorId_def priorDownloadable_def resolveUser_def
        withUser_def getUserByBillingID_def getInvoiceByBillingInvoiceID_def saveInvoice_def)
  have c2: "calls downloadFailWorld = []" by (simp add: downloadFailWorld_def mkWorld_def)
  have x2: "syncInvoices memProvider None [''in_1''] ?a downloadFailWorld =
     (Inr \<lparr>inSuccess = 0, inError = 1\<rparr>, None,
      downloadFailWorld
        \<lparr>calls := [EvGetInvoice ''in_1'',
                   EvDownloadInvoiceDocument savedInvoice
                     (Inl (ProviderError ''download failed''))],
         store := (store downloadFailWorld)
                    \<lparr>st_invoices := [savedInvoice], st_nextInvoiceID := 1\<rparr>\<rparr>)"
    using tryInvoice_without_document [OF g2 p2 u2 sb s2 b3 need d2, of ?a] c2
    by simp
  have l2: "getInvoiceByBillingInvoiceID
     ((store downloadFailWorld)\<lparr>st_invoices := [savedInvoice], st_nextInvoiceID := 1\<rparr>)
     ''in_1'' = Some savedInvoice"
    by (simp add: downloadFailWorld_def memProvider_def customerFor_def emptyMem_def
        emptySettings_def emptyStorage_def mkWorld_def sampleBillingData_def sampleUser_def
        provInvoice_def savedInvoice_def withPriorId_def priorDownloadable_def resolveUser_def
        withUser_def getUserByBillingID_def getInvoiceByBillingInvoiceID_def saveInvoice_def)
  show ?thesis using g1 d1 fl x1 t1 g2 d2 x2 l2 by blast
qed

text \<open>
  C4, as it is claimed: a download that fails would still leave the item a success, and
  the sweep would go on. For the provider that throws an error on the download of
  \<^verbatim>\<open>in_1\<close>, the download is attempted, it throws, and the tally of the sweep is no
  success and one error. For the provider that rejects the same download with
  \<^verbatim>\<open>undefined\<close>, the handler of the item throws on reading the message of the error:
  the sweep returns no tally at all, and the invoice saved before the download stays.
\<close>

theorem failed_download_counted_as_error:
  "downloadInvoiceDocument memProvider savedInvoice (prov downloadFailWorld) =
     (Inl (ProviderError ''download failed''), prov downloadFailWorld) \<and>
   calls (snd (synchronizeInvoices memProvider None downloadFailWorld)) =
     [EvCheckConnection, EvGetUpdatedInvoiceIDsInBilling None, EvGetInvoice ''in_1'',
      EvDownloadInvoiceDocument savedInvoice (Inl (ProviderError ''download failed''))] \<and>
   fst (synchronizeInvoices memProvider None downloadFailWorld) =
     Inr \<lparr>inSuccess = 0, inError = 1\<rparr> \<and>
   downloadInvoiceDocument nullishProvider savedInvoice (prov downloadFailWorld) =
     (Inl Nullish, prov downloadFailWorld) \<and>
   fst (synchronizeInvoices nullishProvider None downloadFailWorld) =
     Inl (TypeError ''Cannot read properties of undefined (reading message)'') \<and>
   st_invoices (store (snd (synchronizeInvoices nullishProvider None downloadFailWorld))) =
     [savedInvoice]"
  by (simp add: downloadFailWorld_def nullishProvider_def memProvider_def customerFor_def
      emptyMem_def emptySettings_def emptyStorage_def mkWorld_def sampleBillingData_def
      sampleUser_def provInvoice_def savedInvoice_def call_def newDate_def countSuccess_def
      countError_def logThrown_def checkAndGetBillingUser_def downloadNeeded_def
      downloadStep_def stampUserInvoices_def withPriorId_def priorDownloadable_def
      resolveUser_def withUser_def upsertInvoice_def tryInvoice_def
      stampInvoicesLastSynchronizedOn_def sweepInvoices_def synchronizeInvoices_def Let_def
      getUserByBillingID_def saveUserBillingData_def getInvoiceByBillingInvoiceID_def
      deleteInvoiceByInvoiceID_def saveInvoice_def saveInvoiceDocument_def
      getBillingSettings_def saveBillingSettings_def)

section \<open>Synchronization of the users: the tally\<close>

lemma synchronizeUser_roundTrip:
  assumes "roundTrip P u (prov w) = (r, p', ev)"
  shows "synchronizeUser P u w =
           ((case r of Inl e \<Rightarrow> Inl e | Inr c \<Rightarrow> Inr ()),
            w\<lparr>prov := p', calls := calls w @ ev, store := savedBilling r u (store w)\<rparr>)"
  using assms
  by (auto simp: roundTrip_def synchronizeUser_def call_def savedBilling_def
      split: prod.splits sum.splits bool.splits if_splits)

lemma stampUsersLastSynchronizedOn_sets:
  "ss_usersLastSynchronizedOn (bs_stripe (st_settings (store (stampUsersLastSynchronizedOn w))))
     = Some (clock w) \<and>
   calls (stampUsersLastSynchronizedOn w) = calls w \<and>
   prov (stampUsersLastSynchronizedOn w) = prov w \<and>
   clock (stampUsersLastSynchronizedOn w) = Suc (clock w) \<and>
   st_users (store (stampUsersLastSynchronizedOn w)) = st_users (store w)"
  by (simp add: stampUsersLastSynchronizedOn_def newDate_def getBillingSettings_def
      saveBillingSettings_def Let_def)

lemma getUsers_count: "dr_count (getUsers st) = int (length (dr_result (getUsers st)))"
  by (simp add: getUsers_def dataResult_def)

lemma syncNewUsers_step:
  assumes "roundTrip P u (prov w) = (r, p', ev)" and "r \<noteq> Inl Nullish"
  shows "syncNewUsers P (u # us) a w =
           syncNewUsers P us (if succeeded r then countSuccess a else countError a)
             (w\<lparr>prov := p', calls := calls w @ ev, store := savedBilling r u (store w)\<rparr>)"
  using synchronizeUser_roundTrip [OF assms(1)] assms(2)
  by (cases r) (simp_all add: logThrown_def)

text \<open>
  C2, as the code has it. The storage reports three users flagged with a synchronization
  error and two users to synchronize, the connection check passes, the round-trip to the
  provider (\<^verbatim>\<open>userExists\<close>, then \<^verbatim>\<open>createUser\<close> or \<^verbatim>\<open>updateUser\<close>) goes through for
  exactly one of the two and throws an error value for the other, and the provider then
  reports no changed customer. Then the sweep returns the tally of one success and four
  errors, the provider is left in the state its last answer left it in, its calls are the
  connection check, the two round-trips and the query of the changed customers, the billing
  data of the customer that came back are saved, and the tenant's
  \<^verbatim>\<open>usersLastSynchronizedOn\<close> is set to the time of the sweep.
\<close>

theorem synchronizeUsers_scenario:
  assumes conn: "checkConnection P (prov w) = (Inr (), p0)"
    and err: "length (dr_result (getUsersInError (store w))) = 3"
    and new: "dr_result (getUsers (store w)) = [u1, u2]"
    and t1: "roundTrip P u1 p0 = (r1, p1, ev1)"
    and t2: "roundTrip P u2 p1 = (r2, p2, ev2)"
    and one: "succeeded r1 \<noteq> succeeded r2"
    and thrown: "r1 \<noteq> Inl Nullish" "r2 \<noteq> Inl Nullish"
    and chg: "getUpdatedUserIDsInBilling P p2 = (Inr [], p3)"
  shows "\<exists>w'. synchronizeUsers P w = (Inr \<lparr>inSuccess = 1, inError = 4\<rparr>, w') \<and>
              ss_usersLastSynchronizedOn (bs_stripe (st_settings (store w'))) = Some (clock w) \<and>
              clock w' = Suc (clock w) \<and>
              prov w' = p3 \<and>
              calls w' = calls w @ EvCheckConnection # ev1 @ ev2 @ [EvGetUpdatedUserIDsInBilling] \<and>
              st_users (store w') = st_users (savedBilling r2 u2 (savedBilling r1 u1 (store w)))"
proof -
  define w0 where "w0 = w\<lparr>prov := p0, calls := calls w @ [EvCheckConnection]\<rparr>"
  have c: "call (checkConnection P) (\<lambda>r. EvCheckConnection) w = (Inr (), w0)"
    using conn by (simp add: call_def w0_def)
  have st0: "store w0 = store w" "clock w0 = clock w" "prov w0 = p0" by (simp_all add: w0_def)
  let ?a0 = "\<lparr>inSuccess = 0, inError = 3\<rparr>"
  define w1 where
    "w1 = w0\<lparr>prov := p1, calls := calls w0 @ ev1, store := savedBilling r1 u1 (store w0)\<rparr>"
  define w2 where
    "w2 = w1\<lparr>prov := p2, calls := calls w1 @ ev2, store := savedBilling r2 u2 (store w1)\<rparr>"
  have cnt: "dr_count (getUsers (store w)) > 0" using getUsers_count [of "store w"] new by simp
  have t1': "roundTrip P u1 (prov w0) = (r1, p1, ev1)" using t1 st0 by simp
  have t2': "roundTrip P u2 (prov w1) = (r2, p2, ev2)" using t2 by (simp add: w1_def)
  have l1: "syncNewUsers P [u1, u2] ?a0 w0 =
              syncNewUsers P [u2] (if succeeded r1 then countSuccess ?a0 else countError ?a0) w1"
    unfolding w1_def by (rule syncNewUsers_step [OF t1' thrown(1)])
  have l2: "syncNewUsers P [u2] a w1 =
              syncNewUsers P [] (if succeeded r2 then countSuccess a else countError a) w2" for a
    unfolding w2_def by (rule syncNewUsers_step [OF t2' thrown(2)])
  have loop: "syncNewUsers P [u1, u2] ?a0 w0 = (Inr \<lparr>inSuccess = 1, inError = 4\<rparr>, w2)"
    unfolding l1 l2 using one
    by (cases "succeeded r1"; cases "succeeded r2")
       (simp_all add: countSuccess_def countError_def)
  define w3 where "w3 = w2\<lparr>prov := p3, calls := calls w2 @ [EvGetUpdatedUserIDsInBilling]\<rparr>"
  have c3: "call (getUpdatedUserIDsInBilling P) (\<lambda>r. EvGetUpdatedUserIDsInBilling) w2 = (Inr [], w3)"
    using chg by (simp add: call_def w3_def w2_def)
  have res: "synchronizeUsers P w =
               (Inr \<lparr>inSuccess = 1, inError = 4\<rparr>, stampUsersLastSynchronizedOn w3)"
    using c st0 err new cnt loop c3 by (simp add: synchronizeUsers_def Let_def)
  have w3: "clock w3 = clock w" "prov w3 = p3"
    "calls w3 = calls w @ EvCheckConnection # ev1 @ ev2 @ [EvGetUpdatedUserIDsInBilling]"
    "store w3 = savedBilling r2 u2 (savedBilling r1 u1 (store w))"
    by (simp_all add: w3_def w2_def w1_def w0_def)
  show ?thesis using res stampUsersLastSynchronizedOn_sets [of w3] w3 by simp
qed

theorem synchronizeUsers_scenario_witness:
  "checkConnection memProvider (prov usersWorld) = (Inr (), prov usersWorld) \<and>
   length (dr_result (getUsersInError (store usersWorld))) = 3 \<and>
   dr_result (getUsers (store usersWorld)) = [newUser ''n1'', newUser ''n2''] \<and>
   roundTrip memProvider (newUser ''n1'') (prov usersWorld) =
     (Inr (customerFor (newUser ''n1'')),
      (prov usersWorld)\<lparr>m_customers := [customerFor (newUser ''n1'')]\<rparr>,
      [EvUserExists (newUser ''n1'') (Inr False), EvCreateUser (newUser ''n1'') True]) \<and>
   roundTrip memProvider (newUser ''n2'')
     ((prov usersWorld)\<lparr>m_customers := [customerFor (newUser ''n1'')]\<rparr>) =
     (Inl (ProviderError ''customer rejected''),
      (prov usersWorld)\<lparr>m_customers := [customerFor (newUser ''n1'')]\<rparr>,
      [EvUserExists (newUser ''n2'') (Inr False), EvCreateUser (newUser ''n2'') False]) \<and>
   fst (synchronizeUsers memProvider usersWorld) = Inr \<lparr>inSuccess = 1, inError = 4\<rparr> \<and>
   ss_usersLastSynchronizedOn
     (bs_stripe (st_settings (store (snd (synchronizeUsers memProvider usersWorld))))) =
     Some 100 \<and>
   clock (snd (synchronizeUsers memProvider usersWorld)) = 101 \<and>
   prov (snd (synchronizeUsers memProvider usersWorld)) =
     (prov usersWorld)\<lparr>m_customers := [customerFor (newUser ''n1'')]\<rparr> \<and>
   calls (snd (synchronizeUsers memProvider usersWorld)) =
     [EvCheckConnection,
      EvUserExists (newUser ''n1'') (Inr False), EvCreateUser (newUser ''n1'') True,
      EvUserExists (newUser ''n2'') (Inr False), EvCreateUser (newUser ''n2'') False,
      EvGetUpdatedUserIDsInBilling] \<and>
   st_users (store (snd (synchronizeUsers memProvider usersWorld))) =
     [flaggedUser ''e1'', flaggedUser ''e2'', flaggedUser ''e3'', syncedUser, newUser ''n2'']"
proof -
  let ?p1 = "(prov usersWorld)\<lparr>m_customers := [customerFor (newUser ''n1'')]\<rparr>"
  let ?r2 = "Inl (ProviderError ''customer rejected'') :: error + billing_user"
  have conn: "checkConnection memProvider (prov usersWorld) = (Inr (), prov usersWorld)"
    by (simp add: memProvider_def)
  have err: "length (dr_result (getUsersInError (store usersWorld))) = 3"
    by (simp add: usersWorld_def memProvider_def customerFor_def emptyMem_def emptySettings_def
        emptyStorage_def mkWorld_def flaggedUser_def newUser_def fiveUsers_def call_def
        newDate_def countSuccess_def countError_def logThrown_def synchronizeUser_def
        stampUsersLastSynchronizedOn_def synchronizeUsers_def Let_def getUsersInError_def
        getUsers_def dataResult_def getUserByBillingID_def saveUserBillingData_def
        getBillingSettings_def saveBillingSettings_def)
  have new: "dr_result (getUsers (store usersWorld)) = [newUser ''n1'', newUser ''n2'']"
    by (simp add: usersWorld_def memProvider_def customerFor_def emptyMem_def emptySettings_def
        emptyStorage_def mkWorld_def flaggedUser_def newUser_def fiveUsers_def call_def
        newDate_def countSuccess_def countError_def logThrown_def synchronizeUser_def
        stampUsersLastSynchronizedOn_def synchronizeUsers_def Let_def getUsersInError_def
        getUsers_def dataResult_def getUserByBillingID_def saveUserBillingData_def
        getBillingSettings_def saveBillingSettings_def)
  have t1: "roundTrip memProvider (newUser ''n1'') (prov usersWorld) =
     (Inr (customerFor (newUser ''n1'')), ?p1,
      [EvUserExists (newUser ''n1'') (Inr False), EvCreateUser (newUser ''n1'') True])"
    by (simp add: usersWorld_def roundTrip_def memProvider_def customerFor_def emptyMem_def
        emptySettings_def emptyStorage_def mkWorld_def flaggedUser_def newUser_def fiveUsers_def
        call_def newDate_def countSuccess_def countError_def logThrown_def synchronizeUser_def
        stampUsersLastSynchronizedOn_def synchronizeUsers_def Let_def getUsersInError_def
        getUsers_def dataResult_def getUserByBillingID_def saveUserBillingData_def
        getBillingSettings_def saveBillingSettings_def)
  have t2: "roundTrip memProvider (newUser ''n2'') ?p1 =
     (?r2, ?p1, [EvUserExists (newUser ''n2'') (Inr False), EvCreateUser (newUser ''n2'') False])"
    by (simp add: usersWorld_def roundTrip_def memProvider_def customerFor_def emptyMem_def
        emptySettings_def emptyStorage_def mkWorld_def flaggedUser_def newUser_def fiveUsers_def
        call_def newDate_def countSuccess_def countError_def logThrown_def synchronizeUser_def
        stampUsersLastSynchronizedOn_def synchronizeUsers_def Let_def getUsersInError_def
        getUsers_def dataResult_def getUserByBillingID_def saveUserBillingData_def
        getBillingSettings_def saveBillingSettings_def)
  have one: "succeeded (Inr (customerFor (newUser ''n1'')) :: error + billing_user) \<noteq>
             succeeded ?r2"
    by simp
  have n1: "(Inr (customerFor (newUser ''n1'')) :: error + billing_user) \<noteq> Inl Nullish" by simp
  have n2: "?r2 \<noteq> Inl Nullish" by simp
  have chg: "getUpdatedUserIDsInBilling memProvider ?p1 = (Inr [], ?p1)"
    by (simp add: usersWorld_def memProvider_def customerFor_def emptyMem_def emptySettings_def
        emptyStorage_def mkWorld_def flaggedUser_def newUser_def fiveUsers_def call_def
        newDate_def countSuccess_def countError_def logThrown_def synchronizeUser_def
        stampUsersLastSynchronizedOn_def synchronizeUsers_def Let_def getUsersInError_def
        getUsers_def dataResult_def getUserByBillingID_def saveUserBillingData_def
        getBillingSettings_def saveBillingSettings_def)
  have w: "clock usersWorld = 100" "calls usersWorld = []"
    by (simp_all add: usersWorld_def mkWorld_def)
  have sv: "st_users (savedBilling ?r2 (newUser ''n2'')
              (savedBilling (Inr (customerFor (newUser ''n1''))) (newUser ''n1'')
                 (store usersWorld))) =
     [flaggedUser ''e1'', flaggedUser ''e2'', flaggedUser ''e3'', syncedUser, newUser ''n2'']"
    by (simp add: usersWorld_def savedBilling_def syncedUser_def memProvider_def customerFor_def
        emptyMem_def emptySettings_def emptyStorage_def mkWorld_def flaggedUser_def newUser_def
        fiveUsers_def call_def newDate_def countSuccess_def countError_def logThrown_def
        synchronizeUser_def stampUsersLastSynchronizedOn_def synchronizeUsers_def Let_def
        getUsersInError_def getUsers_def dataResult_def getUserByBillingID_def
        saveUserBillingData_def getBillingSettings_def saveBillingSettings_def)
  have "fst (synchronizeUsers memProvider usersWorld) = Inr \<lparr>inSuccess = 1, inError = 4\<rparr> \<and>
   ss_usersLastSynchronizedOn
     (bs_stripe (st_settings (store (snd (synchronizeUsers memProvider usersWorld))))) =
     Some 100 \<and>
   clock (snd (synchronizeUsers memProvider usersWorld)) = 101 \<and>
   prov (snd (synchronizeUsers memProvider usersWorld)) = ?p1 \<and>
   calls (snd (synchronizeUsers memProvider usersWorld)) =
     [EvCheckConnection,
      EvUserExists (newUser ''n1'') (Inr False), EvCreateUser (newUser ''n1'') True,
      EvUserExists (newUser ''n2'') (Inr False), EvCreateUser (newUser ''n2'') False,
      EvGetUpdatedUserIDsInBilling] \<and>
   st_users (store (snd (synchronizeUsers memProvider usersWorld))) =
     [flaggedUser ''e1'', flaggedUser ''e2'', flaggedUser ''e3'', syncedUser, newUser ''n2'']"
    using synchronizeUsers_scenario [OF conn err new t1 t2 one n1 n2 chg] w sv by auto
  then show ?thesis using conn err new t1 t2 by blast
qed

text \<open>
  C2, as it is claimed: the tally would be one success and four errors, and the watermark
  advanced, whatever else the provider does. First, the storage reports the three flagged
  users and the two new ones, the customer of the first new user is created and that of
  the second rejected, and the provider reports the customer just created as changed: the
  user is synchronized a second time in the same sweep, and the tally is two successes and
  four errors. Second, the provider rejects the customer of the second new user with
  \<^verbatim>\<open>undefined\<close> and reports no changed customer: the handler of the loop throws on
  reading the message of the error, the sweep returns no tally, and the watermark is not
  written.
\<close>

theorem changed_customer_counted_twice:
  "length (dr_result (getUsersInError (store usersChangedWorld))) = 3 \<and>
   dr_result (getUsers (store usersChangedWorld)) = [newUser ''n1'', newUser ''n2''] \<and>
   calls (snd (synchronizeUsers memProvider usersChangedWorld)) =
     [EvCheckConnection,
      EvUserExists (newUser ''n1'') (Inr False), EvCreateUser (newUser ''n1'') True,
      EvUserExists (newUser ''n2'') (Inr False), EvCreateUser (newUser ''n2'') False,
      EvGetUpdatedUserIDsInBilling, EvGetUser ''cus_n1'',
      EvUserExists syncedUser (Inr True), EvUpdateUser syncedUser True] \<and>
   fst (synchronizeUsers memProvider usersChangedWorld) = Inr \<lparr>inSuccess = 2, inError = 4\<rparr> \<and>
   length (dr_result (getUsersInError (store usersWorld))) = 3 \<and>
   dr_result (getUsers (store usersWorld)) = [newUser ''n1'', newUser ''n2''] \<and>
   fst (roundTrip nullishProvider (newUser ''n1'') (prov usersWorld)) =
     Inr (customerFor (newUser ''n1'')) \<and>
   fst (roundTrip nullishProvider (newUser ''n2'')
          ((prov usersWorld)\<lparr>m_customers := [customerFor (newUser ''n1'')]\<rparr>)) = Inl Nullish \<and>
   calls (snd (synchronizeUsers nullishProvider usersWorld)) =
     [EvCheckConnection,
      EvUserExists (newUser ''n1'') (Inr False), EvCreateUser (newUser ''n1'') True,
      EvUserExists (newUser ''n2'') (Inr False), EvCreateUser (newUser ''n2'') False] \<and>
   fst (synchronizeUsers nullishProvider usersWorld) =
     Inl (TypeError ''Cannot read properties of undefined (reading message)'') \<and>
   ss_usersLastSynchronizedOn
     (bs_stripe (st_settings (store (snd (synchronizeUsers nullishProvider usersWorld))))) = None"
  by (simp add: usersChangedWorld_def usersWorld_def nullishProvider_def roundTrip_def
      syncedUser_def memProvider_def customerFor_def emptyMem_def emptySettings_def
          emptyStorage_def mkWorld_def flaggedUser_def newUser_def fiveUsers_def call_def
          newDate_def countSuccess_def countError_def logThrown_def synchronizeUser_def
          stampUsersLastSynchronizedOn_def synchronizeUsers_def Let_def getUsersInError_def
          getUsers_def dataResult_def getUserByBillingID_def saveUserBillingData_def
          getBillingSettings_def saveBillingSettings_def)

section \<open>Synchronization of the users: one customer for one user\<close>















end
